theory Spec2Isabelle
  imports Main "HOL-Library.Word" "HOL-Library.Monad_Syntax"
begin

unbundle bit_operations_syntax

section \<open>Machine types and error codes of nbtquery.c\<close>

type_synonym u8 = "8 word"
type_synonym u16 = "16 word"
type_synonym u32 = "32 word"

text \<open>
  The error codes (lines 160-169). They are values of C \<open>int\<close>; no arithmetic is done on
  them, only comparison, so they are modelled as \<open>int\<close>.
\<close>

definition NBSTAT_EOK :: int where "NBSTAT_EOK = 0x000"
definition NBSTAT_ENOMEM :: int where "NBSTAT_ENOMEM = 0x101"
definition NBSTAT_EINVAL :: int where "NBSTAT_EINVAL = 0x102"
definition NBSTAT_EWSAFAIL :: int where "NBSTAT_EWSAFAIL = 0x103"
definition NBSTAT_ESOCKET :: int where "NBSTAT_ESOCKET = 0x104"
definition NBSTAT_EPROTO :: int where "NBSTAT_EPROTO = 0x105"
definition NBSTAT_ETRFLAG :: int where "NBSTAT_ETRFLAG = 0x106"
definition NBSTAT_ETIMEOUT :: int where "NBSTAT_ETIMEOUT = 0x107"
definition NBSTAT_EDEBUG :: int where "NBSTAT_EDEBUG = 0x200"

lemmas nbstat_codes =
  NBSTAT_EOK_def NBSTAT_ENOMEM_def NBSTAT_EINVAL_def NBSTAT_EWSAFAIL_def
  NBSTAT_ESOCKET_def NBSTAT_EPROTO_def NBSTAT_ETRFLAG_def NBSTAT_ETIMEOUT_def
  NBSTAT_EDEBUG_def

section \<open>The error-string table and \<open>nbstat_error\<close> (lines 724-756)\<close>

text \<open>
  One row of the table is a code and a string pointer; \<open>None\<close> is the \<open>NULL\<close> string
  of the sentinel row. The sentinel's code \<open>0xffffffff\<close> is stored in an \<open>int\<close>, where
  it reads as \<open>-1\<close>.
\<close>

definition error_list :: "(int \<times> string option) list" where
  "error_list =
    [ (NBSTAT_EOK,      Some ''operation completed successfully''),
      (NBSTAT_ENOMEM,   Some ''memory allocation failure''),
      (NBSTAT_EINVAL,   Some ''an invalid argument was passed to a library function''),
      (NBSTAT_EWSAFAIL, Some ''could not initialize the sockets layer''),
      (NBSTAT_ESOCKET,  Some ''the system could not allocate a socket descriptor''),
      (NBSTAT_ETRFLAG,  Some ''truncation flag was set in response''),
      (NBSTAT_ETIMEOUT, Some ''request expired''),
      (NBSTAT_EDEBUG,   Some ''debugging error''),
      (sint (0xffffffff :: u32), None) ]"

text \<open>
  The \<open>for\<close> loop of \<open>nbstat_error\<close>: it walks the rows until the row whose string is
  \<open>NULL\<close>, and leaves with the string of the first row whose code is \<open>x\<close>. The result is
  the local \<open>error\<close>, \<open>None\<close> for \<open>NULL\<close>. The table ends with the sentinel, so the
  walk never leaves it; the equation for the empty list only makes the function total.
\<close>

fun nbstat_error_loop :: "(int \<times> string option) list \<Rightarrow> int \<Rightarrow> string option" where
  "nbstat_error_loop [] x = None"
| "nbstat_error_loop ((result, None) # rest) x = None"
| "nbstat_error_loop ((result, Some str) # rest) x =
     (if result = x then Some str else nbstat_error_loop rest x)"

definition nbstat_error :: "int \<Rightarrow> string" where
  "nbstat_error x =
     (case nbstat_error_loop error_list x of
        None \<Rightarrow> ''Unknown error''
      | Some error \<Rightarrow> error)"

section \<open>Timeout normalisation in \<open>nbstat_query\<close> (lines 680-681)\<close>

text \<open>
  \<open>if (timeout > 10000 || timeout <= 0) timeout = 3000;\<close> on a C \<open>int\<close>; only
  comparisons, so \<open>int\<close> models it.
\<close>

definition normalize_timeout :: "int \<Rightarrow> int" where
  "normalize_timeout timeout = (if timeout > 10000 \<or> timeout \<le> 0 then 3000 else timeout)"

section \<open>Data model (lines 33-158)\<close>

text \<open>
  The structs as records. A bit-field of width w is a \<open>w word\<close>, so that storing a wider
  value into it keeps the low w bits, as the C assignment does. A fixed-size byte array
  is a byte list. Field names that would hide a variable or a HOL constant carry a
  prefix: \<open>hdr_r\<close>, \<open>hdr_b\<close> and \<open>node_g\<close> are the one-letter bit-fields \<open>r\<close>, \<open>b\<close> and
  \<open>g\<close>; \<open>next_ptr\<close> is \<open>next\<close>; the \<open>buf_\<close> and \<open>nb_\<close> fields are those of \<open>buffer_t\<close>
  and \<open>nbstat_t\<close>.
\<close>

record nbstat_packet_header =
  name_trn_id :: u16
  hdr_r :: "1 word"
  opcode :: "4 word"
  aa :: "1 word"
  tc :: "1 word"
  rd :: "1 word"
  ra :: "1 word"
  unused1 :: "1 word"
  unused2 :: "1 word"
  hdr_b :: "1 word"
  rcode :: "4 word"
  qdcount :: u16
  ancount :: u16
  nscount :: u16
  arcount :: u16

definition OPCODE_QUERY :: "4 word" where "OPCODE_QUERY = 0x00"

record nbstat_question_section =
  q_name :: "u8 list"
  q_type :: u16
  q_class :: u16

definition QTYPE_NBSTAT :: u16 where "QTYPE_NBSTAT = 0x0021"
definition QCLASS_IN :: u16 where "QCLASS_IN = 0x0001"

record nbstat_resource_record =
  rr_name :: "u8 list"
  rr_type :: u16
  rr_class :: u16
  ttl :: u32
  rdlength :: u16

definition RR_TYPE_NBSTAT :: u16 where "RR_TYPE_NBSTAT = 0x0021"

text \<open>A pointer to a node is an address of the node heap below, or \<open>None\<close> for \<open>NULL\<close>.\<close>

type_synonym addr = nat

record nbstat_node_name =
  nbf_name :: "u8 list"
  suffix :: u8
  node_g :: "1 word"
  ont :: "2 word"
  drg :: "1 word"
  cnf :: "1 word"
  act :: "1 word"
  prm :: "1 word"
  reserved :: "9 word"
  next_ptr :: "addr option"

record nbstat_statistics =
  unit_id :: "u8 list"
  jumpers :: u8
  test_result :: u8
  version_number :: u16
  period_of_statistics :: u16
  number_of_crcs :: u16
  number_alignment_errors :: u16
  number_of_collisions :: u16
  number_send_aborts :: u16
  number_good_sends :: u32
  number_good_receives :: u32
  number_retransmits :: u16
  number_no_resource_conditions :: u16
  number_free_command_blocks :: u16
  total_number_command_blocks :: u16
  max_total_number_command_blocks :: u16
  number_pending_sessions :: u16
  max_number_pending_sessions :: u16
  max_total_sessions_possible :: u16
  session_data_packet_size :: u16

text \<open>\<open>struct nbstat_query\<close>; the function of the same name is \<open>nbstat_query\<close> below.\<close>

record nbstat_query_msg =
  query_hdr :: nbstat_packet_header
  question :: nbstat_question_section

record nbstat_response =
  hdr :: nbstat_packet_header
  rr :: nbstat_resource_record
  num_names :: u8
  node :: "addr option"
  stat :: nbstat_statistics

text \<open>
  \<open>buffer_t\<close>: \<open>buf_data\<close> is the storage \<open>data\<close> points to, with its real extent;
  \<open>buf_size\<close> and \<open>buf_length\<close> are the fields \<open>size\<close> and \<open>length\<close>.
\<close>

record buffer =
  buf_data :: "u8 list"
  buf_size :: nat
  buf_length :: nat

type_synonym sockaddr_in = "u32 \<times> u16"

record nbstat =
  nb_sin :: sockaddr_in
  nb_hwaddr :: "u8 list"
  nb_count :: int
  nb_node :: "addr option"

section \<open>Byte-order codec (lines 172-216) and \<open>memcpy\<close>\<close>

text \<open>
  A pointer into a buffer is the byte list and an offset. An access outside the list is
  undefined behaviour in C; the model makes it the value \<open>None\<close>, which every caller
  passes on.
\<close>

definition dec8be :: "u8 list \<Rightarrow> nat \<Rightarrow> u8 option" where
  "dec8be mem p = (if p < length mem then Some (mem ! p) else None)"

definition dec16be :: "u8 list \<Rightarrow> nat \<Rightarrow> u16 option" where
  "dec16be mem p =
     (if p + 1 < length mem
      then Some (push_bit 8 (ucast (mem ! p)) OR ucast (mem ! (p + 1)))
      else None)"

definition dec32be :: "u8 list \<Rightarrow> nat \<Rightarrow> u32 option" where
  "dec32be mem p =
     (if p + 3 < length mem
      then Some (push_bit 24 (ucast (mem ! p)) OR push_bit 16 (ucast (mem ! (p + 1)))
                 OR push_bit 8 (ucast (mem ! (p + 2))) OR ucast (mem ! (p + 3)))
      else None)"

definition enc16be :: "u8 list \<Rightarrow> nat \<Rightarrow> u16 \<Rightarrow> u8 list option" where
  "enc16be mem p x =
     (if p + 1 < length mem
      then Some (mem[p := ucast (drop_bit 8 x AND 0xff), p + 1 := ucast (x AND 0xff)])
      else None)"

text \<open>
  \<open>memcpy\<close> out of a buffer (\<open>bytes_at mem p n\<close> are the \<open>n\<close> bytes read at offset \<open>p\<close>)
  and into one (\<open>memcpy_into mem p src n\<close> writes the first \<open>n\<close> bytes of \<open>src\<close> at \<open>p\<close>).
\<close>

definition bytes_at :: "u8 list \<Rightarrow> nat \<Rightarrow> nat \<Rightarrow> u8 list option" where
  "bytes_at mem p n = (if p + n \<le> length mem then Some (take n (drop p mem)) else None)"

definition memcpy_into :: "u8 list \<Rightarrow> nat \<Rightarrow> u8 list \<Rightarrow> nat \<Rightarrow> u8 list option" where
  "memcpy_into mem p src n =
     (if p + n \<le> length mem \<and> n \<le> length src
      then Some (take p mem @ take n src @ drop (p + n) mem)
      else None)"

section \<open>The node heap: \<open>malloc\<close>, \<open>free\<close>, access through a pointer\<close>

text \<open>
  The heap holds the \<open>struct nbstat_node_name\<close> blocks. Cell \<open>a\<close> of \<open>cells\<close> is the
  block at address \<open>a\<close>, \<open>None\<close> once it is freed. \<open>malloc\<close> hands out the next unused
  address, with the indeterminate contents \<open>junk\<close>, as long as \<open>avail\<close> (the number of
  allocations that will still succeed) is not zero; then it returns \<open>NULL\<close>. Reading,
  writing or freeing a cell that is not allocated is undefined behaviour: \<open>None\<close>.
\<close>

record heap =
  cells :: "nbstat_node_name option list"
  avail :: nat
  junk :: nbstat_node_name

definition malloc :: "heap \<Rightarrow> addr option \<times> heap" where
  "malloc h =
     (if avail h = 0 then (None, h)
      else (Some (length (cells h)),
            h\<lparr>cells := cells h @ [Some (junk h)], avail := avail h - 1\<rparr>))"

definition load :: "heap \<Rightarrow> addr \<Rightarrow> nbstat_node_name option" where
  "load h a = (if a < length (cells h) then cells h ! a else None)"

text \<open>\<open>upd h p f\<close> is an assignment to fields of \<open>*p\<close>: the block at \<open>p\<close> becomes \<open>f\<close> of it.\<close>

definition upd :: "heap \<Rightarrow> addr option \<Rightarrow> (nbstat_node_name \<Rightarrow> nbstat_node_name) \<Rightarrow> heap option" where
  "upd h p f =
     (case p of
        None \<Rightarrow> None
      | Some a \<Rightarrow>
          (case load h a of
             None \<Rightarrow> None
           | Some nd \<Rightarrow> Some (h\<lparr>cells := (cells h)[a := Some (f nd)]\<rparr>)))"

definition free :: "heap \<Rightarrow> addr \<Rightarrow> heap option" where
  "free h a =
     (case load h a of
        None \<Rightarrow> None
      | Some nd \<Rightarrow> Some (h\<lparr>cells := (cells h)[a := None]\<rparr>))"

definition live_count :: "heap \<Rightarrow> nat" where
  "live_count h = length (filter (\<lambda>c. c \<noteq> None) (cells h))"

lemma filter_update_less:
  "a < length xs \<Longrightarrow> P (xs ! a) \<Longrightarrow> \<not> P v \<Longrightarrow>
   length (filter P (xs[a := v])) < length (filter P xs)"
proof (induction xs arbitrary: a)
  case Nil
  then show ?case by simp
next
  case (Cons x xs)
  show ?case
  proof (cases a)
    case 0
    with Cons.prems show ?thesis by (simp add: less_Suc_eq_le)
  next
    case (Suc k)
    with Cons.prems have "length (filter P (xs[k := v])) < length (filter P xs)"
      by (intro Cons.IH) simp_all
    with Suc show ?thesis by simp
  qed
qed

lemma free_live_count:
  "load h a = Some nd \<Longrightarrow> free h a = Some h' \<Longrightarrow> live_count h' < live_count h"
  unfolding load_def free_def live_count_def
  by (auto split: if_splits intro!: filter_update_less)

section \<open>\<open>node_name_free\<close> (lines 400-413)\<close>

text \<open>
  The \<open>while\<close> loop: \<open>tmp = current; current = current->next; free(tmp);\<close>. Each turn
  frees an allocated cell, so the loop ends on every heap.
\<close>

function node_name_free_loop :: "heap \<Rightarrow> addr option \<Rightarrow> heap option" where
  "node_name_free_loop h None = Some h"
| "node_name_free_loop h (Some tmp) =
     (case load h tmp of
        None \<Rightarrow> None
      | Some nd \<Rightarrow>
          (case free h tmp of
             None \<Rightarrow> None
           | Some h' \<Rightarrow> node_name_free_loop h' (next_ptr nd)))"
  by pat_completeness auto
termination
  by (relation "measure (\<lambda>(h, p). live_count h)") (auto simp: free_live_count)

definition node_name_free :: "heap \<Rightarrow> addr option \<Rightarrow> heap option" where
  "node_name_free h nodep = (if nodep \<noteq> None then node_name_free_loop h nodep else Some h)"

section \<open>\<open>nbstat_decode_response\<close> (lines 416-578)\<close>

text \<open>
  Lines 428-455, the header. \<open>ptr\<close> is the offset of the C pointer from \<open>buffer->data\<close>;
  every \<open>ptr += sizeof(...)\<close> is written with the size of the field. The sub-fields
  \<open>r\<close> and \<open>opcode\<close> are shifted and masked; the other eight are assigned the whole
  \<open>flags\<close> word, of which a bit-field of width w keeps the low w bits (\<open>ucast\<close>).
\<close>

definition decode_header ::
  "u8 list \<Rightarrow> nat \<Rightarrow> nbstat_packet_header \<Rightarrow> (nbstat_packet_header \<times> nat) option" where
  "decode_header mem ptr0 hdr0 = do {
     let ptr = ptr0;
     v \<leftarrow> dec16be mem ptr;
     let h = hdr0\<lparr>name_trn_id := v\<rparr>;
     let ptr = ptr + 2;
     flags \<leftarrow> dec16be mem ptr;
     let ptr = ptr + 2;
     let h = h\<lparr>hdr_r := ucast (drop_bit 15 flags AND 0x1)\<rparr>;
     let h = h\<lparr>opcode := ucast (drop_bit 11 flags AND 0xf)\<rparr>;
     let h = h\<lparr>aa := ucast flags\<rparr>;
     let h = h\<lparr>tc := ucast flags\<rparr>;
     let h = h\<lparr>rd := ucast flags\<rparr>;
     let h = h\<lparr>ra := ucast flags\<rparr>;
     let h = h\<lparr>unused1 := ucast flags\<rparr>;
     let h = h\<lparr>unused2 := ucast flags\<rparr>;
     let h = h\<lparr>hdr_b := ucast flags\<rparr>;
     let h = h\<lparr>rcode := ucast flags\<rparr>;
     v \<leftarrow> dec16be mem ptr;
     let h = h\<lparr>qdcount := v\<rparr>;
     let ptr = ptr + 2;
     v \<leftarrow> dec16be mem ptr;
     let h = h\<lparr>ancount := v\<rparr>;
     let ptr = ptr + 2;
     v \<leftarrow> dec16be mem ptr;
     let h = h\<lparr>nscount := v\<rparr>;
     let ptr = ptr + 2;
     v \<leftarrow> dec16be mem ptr;
     let h = h\<lparr>arcount := v\<rparr>;
     let ptr = ptr + 2;
     Some (h, ptr)
   }"

text \<open>
  Lines 487-528, the loop that builds the linked list. The loop's variables are the
  heap, \<open>rep->node\<close>, \<open>tmp\<close> and \<open>ptr\<close>; \<open>current\<close> is set anew in every turn.
\<close>

record entry_state =
  es_heap :: heap
  es_node :: "addr option"
  es_tmp :: "addr option"
  es_ptr :: nat

text \<open>
  One turn of the loop. The result is \<open>Some code\<close> with the state when the turn leaves
  the function by \<open>return code\<close>, and \<open>None\<close> with the state when it falls through to
  the next turn.
\<close>

definition decode_entry :: "u8 list \<Rightarrow> entry_state \<Rightarrow> (int option \<times> entry_state) option" where
  "decode_entry mem s =
     (case malloc (es_heap s) of
        (current, h) \<Rightarrow>
          if current = None then do {
            h \<leftarrow> node_name_free h (es_node s);
            Some (Some NBSTAT_ENOMEM, s\<lparr>es_heap := h\<rparr>)
          } else do {
            h \<leftarrow> upd h current (\<lambda>n. n\<lparr>next_ptr := None\<rparr>);
            (h, nodep) \<leftarrow>
              (if es_node s = None then Some (h, current)
               else do {
                 h \<leftarrow> upd h (es_tmp s) (\<lambda>n. n\<lparr>next_ptr := current\<rparr>);
                 Some (h, es_node s)
               });
            let tmp = current;
            let ptr = es_ptr s;
            name \<leftarrow> bytes_at mem ptr 15;
            h \<leftarrow> upd h current (\<lambda>n. n\<lparr>nbf_name := name\<rparr>);
            let ptr = ptr + 15;
            v \<leftarrow> dec8be mem ptr;
            h \<leftarrow> upd h current (\<lambda>n. n\<lparr>suffix := v\<rparr>);
            let ptr = ptr + 1;
            flags \<leftarrow> dec16be mem ptr;
            h \<leftarrow> upd h current (\<lambda>n. n\<lparr>node_g := ucast (drop_bit 15 flags AND 0x1)\<rparr>);
            h \<leftarrow> upd h current (\<lambda>n. n\<lparr>ont := ucast (drop_bit 13 flags AND 0x3)\<rparr>);
            h \<leftarrow> upd h current (\<lambda>n. n\<lparr>drg := ucast (drop_bit 12 flags AND 0x1)\<rparr>);
            h \<leftarrow> upd h current (\<lambda>n. n\<lparr>cnf := ucast (drop_bit 11 flags AND 0x1)\<rparr>);
            h \<leftarrow> upd h current (\<lambda>n. n\<lparr>act := ucast (drop_bit 10 flags AND 0x1)\<rparr>);
            h \<leftarrow> upd h current (\<lambda>n. n\<lparr>prm := ucast (drop_bit 9 flags AND 0x1)\<rparr>);
            h \<leftarrow> upd h current (\<lambda>n. n\<lparr>reserved := ucast (flags AND 0x1ff)\<rparr>);
            let ptr = ptr + 2;
            Some (None, \<lparr>es_heap = h, es_node = nodep, es_tmp = tmp, es_ptr = ptr\<rparr>)
          })"

text \<open>
  \<open>for (i = 0; i < rep->num_names; i++)\<close>: the body does not use \<open>i\<close>, so the loop is a
  recursion on the number of turns left, \<open>num_names - i\<close>.
\<close>

fun entry_loop :: "u8 list \<Rightarrow> nat \<Rightarrow> entry_state \<Rightarrow> (int option \<times> entry_state) option" where
  "entry_loop mem 0 s = Some (None, s)"
| "entry_loop mem (Suc k) s =
     (case decode_entry mem s of
        None \<Rightarrow> None
      | Some (Some code, s') \<Rightarrow> Some (Some code, s')
      | Some (None, s') \<Rightarrow> entry_loop mem k s')"

text \<open>
  Lines 530-533, \<open>for (i = 0; i < sizeof(rep->stat.unit_id); i++)\<close>: \<open>k\<close> is the number
  of turns left, \<open>6 - i\<close>. The array has the elements its list has; a store outside it
  is \<open>None\<close>.
\<close>

fun unit_id_loop :: "u8 list \<Rightarrow> nat \<Rightarrow> nat \<Rightarrow> u8 list \<Rightarrow> nat \<Rightarrow> (u8 list \<times> nat) option" where
  "unit_id_loop mem 0 i uid ptr = Some (uid, ptr)"
| "unit_id_loop mem (Suc k) i uid ptr = do {
     v \<leftarrow> dec8be mem ptr;
     uid \<leftarrow> (if i < length uid then Some (uid[i := v]) else None);
     unit_id_loop mem k (i + 1) uid (ptr + 1)
   }"

text \<open>Lines 530-573, the statistics block.\<close>

definition decode_stat ::
  "u8 list \<Rightarrow> nat \<Rightarrow> nbstat_statistics \<Rightarrow> (nbstat_statistics \<times> nat) option" where
  "decode_stat mem ptr0 st0 = do {
     (uid, ptr) \<leftarrow> unit_id_loop mem 6 0 (unit_id st0) ptr0;
     let st = st0\<lparr>unit_id := uid\<rparr>;
     v \<leftarrow> dec8be mem ptr;
     let st = st\<lparr>jumpers := v\<rparr>;
     let ptr = ptr + 1;
     v \<leftarrow> dec8be mem ptr;
     let st = st\<lparr>test_result := v\<rparr>;
     let ptr = ptr + 1;
     v \<leftarrow> dec16be mem ptr;
     let st = st\<lparr>version_number := v\<rparr>;
     let ptr = ptr + 2;
     v \<leftarrow> dec16be mem ptr;
     let st = st\<lparr>period_of_statistics := v\<rparr>;
     let ptr = ptr + 2;
     v \<leftarrow> dec16be mem ptr;
     let st = st\<lparr>number_of_crcs := v\<rparr>;
     let ptr = ptr + 2;
     v \<leftarrow> dec16be mem ptr;
     let st = st\<lparr>number_alignment_errors := v\<rparr>;
     let ptr = ptr + 2;
     v \<leftarrow> dec16be mem ptr;
     let st = st\<lparr>number_of_collisions := v\<rparr>;
     let ptr = ptr + 2;
     v \<leftarrow> dec16be mem ptr;
     let st = st\<lparr>number_send_aborts := v\<rparr>;
     let ptr = ptr + 2;
     v \<leftarrow> dec32be mem ptr;
     let st = st\<lparr>number_good_sends := v\<rparr>;
     let ptr = ptr + 4;
     v \<leftarrow> dec32be mem ptr;
     let st = st\<lparr>number_good_receives := v\<rparr>;
     let ptr = ptr + 4;
     v \<leftarrow> dec16be mem ptr;
     let st = st\<lparr>number_retransmits := v\<rparr>;
     let ptr = ptr + 2;
     v \<leftarrow> dec16be mem ptr;
     let st = st\<lparr>number_no_resource_conditions := v\<rparr>;
     let ptr = ptr + 2;
     v \<leftarrow> dec16be mem ptr;
     let st = st\<lparr>number_free_command_blocks := v\<rparr>;
     let ptr = ptr + 2;
     v \<leftarrow> dec16be mem ptr;
     let st = st\<lparr>total_number_command_blocks := v\<rparr>;
     let ptr = ptr + 2;
     v \<leftarrow> dec16be mem ptr;
     let st = st\<lparr>max_total_number_command_blocks := v\<rparr>;
     let ptr = ptr + 2;
     v \<leftarrow> dec16be mem ptr;
     let st = st\<lparr>number_pending_sessions := v\<rparr>;
     let ptr = ptr + 2;
     v \<leftarrow> dec16be mem ptr;
     let st = st\<lparr>max_number_pending_sessions := v\<rparr>;
     let ptr = ptr + 2;
     v \<leftarrow> dec16be mem ptr;
     let st = st\<lparr>max_total_sessions_possible := v\<rparr>;
     let ptr = ptr + 2;
     v \<leftarrow> dec16be mem ptr;
     let st = st\<lparr>session_data_packet_size := v\<rparr>;
     let ptr = ptr + 2;
     Some (st, ptr)
   }"

text \<open>
  The whole function. It returns the code, the heap and \<open>*rep\<close> as it leaves them;
  \<open>None\<close> is an access outside a buffer, an array or an allocated block. \<open>rep\<close> is the
  caller's structure as it stands on entry. \<open>18 * rep->num_names + 46\<close> is computed in
  \<open>int\<close> and is at most 4636, so nothing wraps.
\<close>

definition nbstat_decode_response ::
  "buffer \<Rightarrow> heap \<Rightarrow> nbstat_response \<Rightarrow> (int \<times> heap \<times> nbstat_response) option" where
  "nbstat_decode_response buffer h rep0 =
     (if buf_length buffer > 576 then Some (NBSTAT_EPROTO, h, rep0)
      else do {
        let mem = buf_data buffer;
        (hdr1, ptr) \<leftarrow> decode_header mem 0 (hdr rep0);
        let rep = rep0\<lparr>hdr := hdr1\<rparr>;
        let ptr = ptr + 34;
        v \<leftarrow> dec16be mem ptr;
        let rep = rep\<lparr>rr := (rr rep)\<lparr>rr_type := v\<rparr>\<rparr>;
        let ptr = ptr + 2;
        if rr_type (rr rep) \<noteq> RR_TYPE_NBSTAT then Some (NBSTAT_EPROTO, h, rep)
        else do {
          v \<leftarrow> dec16be mem ptr;
          let rep = rep\<lparr>rr := (rr rep)\<lparr>rr_class := v\<rparr>\<rparr>;
          let ptr = ptr + 2;
          v \<leftarrow> dec32be mem ptr;
          let rep = rep\<lparr>rr := (rr rep)\<lparr>ttl := v\<rparr>\<rparr>;
          let ptr = ptr + 4;
          v \<leftarrow> dec16be mem ptr;
          let rep = rep\<lparr>rr := (rr rep)\<lparr>rdlength := v\<rparr>\<rparr>;
          let ptr = ptr + 2;
          v \<leftarrow> dec8be mem ptr;
          let rep = rep\<lparr>num_names := v\<rparr>;
          let ptr = ptr + 1;
          let offset = ptr;
          let offset = offset + (18 * unat (num_names rep) + 46);
          if offset \<noteq> buf_length buffer then Some (NBSTAT_EPROTO, h, rep)
          else do {
            let rep = rep\<lparr>node := None\<rparr>;
            (ret, s) \<leftarrow> entry_loop mem (unat (num_names rep))
                          \<lparr>es_heap = h, es_node = node rep, es_tmp = None, es_ptr = ptr\<rparr>;
            let rep = rep\<lparr>node := es_node s\<rparr>;
            case ret of
              Some code \<Rightarrow> Some (code, es_heap s, rep)
            | None \<Rightarrow> do {
                (st, ptr) \<leftarrow> decode_stat mem (es_ptr s) (stat rep);
                let rep = rep\<lparr>stat := st\<rparr>;
                let offset = ptr;
                Some (if offset \<noteq> buf_length buffer then NBSTAT_EDEBUG else NBSTAT_EOK,
                      es_heap s, rep)
              }
          }
        }
      })"

section \<open>\<open>nbstat_encode_request\<close> (lines 344-398)\<close>

text \<open>
  The two pointer arguments are \<open>None\<close> for \<open>NULL\<close>. The result is the code and the
  caller's buffer as the function leaves it.
\<close>

text \<open>
  Lines 357-371: the flags word, put together from the bit-fields of the header. A
  bit-field is promoted to \<open>int\<close> before the shift; no shifted value leaves the low 16
  bits, so the arithmetic is that of \<open>u16\<close>.
\<close>

definition encode_flags :: "nbstat_packet_header \<Rightarrow> u16" where
  "encode_flags qh =
     (let flags = (0x0000 :: u16);
          flags = flags OR (push_bit 15 (ucast (hdr_r qh)) AND 0x8000);
          flags = flags OR (push_bit 11 (ucast (opcode qh)) AND 0x7800);
          flags = flags OR (push_bit 10 (ucast (aa qh)) AND 0x0400);
          flags = flags OR (push_bit 9 (ucast (tc qh)) AND 0x0200);
          flags = flags OR (push_bit 8 (ucast (rd qh)) AND 0x0100);
          flags = flags OR (push_bit 7 (ucast (ra qh)) AND 0x0080);
          flags = flags OR (push_bit 6 (ucast (unused1 qh)) AND 0x0040);
          flags = flags OR (push_bit 5 (ucast (unused2 qh)) AND 0x0020);
          flags = flags OR (push_bit 4 (ucast (hdr_b qh)) AND 0x0010);
          flags = flags OR (ucast (rcode qh) AND 0x000f)
      in flags)"

definition nbstat_encode_request ::
  "buffer option \<Rightarrow> nbstat_query_msg option \<Rightarrow> (int \<times> buffer option) option" where
  "nbstat_encode_request bufp queryp =
     (case bufp of
        None \<Rightarrow> Some (NBSTAT_EINVAL, bufp)
      | Some buffer \<Rightarrow>
          (case queryp of
             None \<Rightarrow> Some (NBSTAT_EINVAL, bufp)
           | Some query \<Rightarrow> do {
               let qh = query_hdr query;
               let mem = buf_data buffer;
               let ptr = 0;
               mem \<leftarrow> enc16be mem ptr (name_trn_id qh);
               let ptr = ptr + 2;
               let flags = encode_flags qh;
               mem \<leftarrow> enc16be mem ptr flags;
               let ptr = ptr + 2;
               mem \<leftarrow> enc16be mem ptr (qdcount qh);
               let ptr = ptr + 2;
               mem \<leftarrow> enc16be mem ptr (ancount qh);
               let ptr = ptr + 2;
               mem \<leftarrow> enc16be mem ptr (nscount qh);
               let ptr = ptr + 2;
               mem \<leftarrow> enc16be mem ptr (arcount qh);
               let ptr = ptr + 2;
               mem \<leftarrow> memcpy_into mem ptr (q_name (question query)) 34;
               let ptr = ptr + 34;
               mem \<leftarrow> enc16be mem ptr (q_type (question query));
               let ptr = ptr + 2;
               mem \<leftarrow> enc16be mem ptr (q_class (question query));
               let ptr = ptr + 2;
               Some (NBSTAT_EOK, Some (buffer\<lparr>buf_data := mem, buf_length := ptr\<rparr>))
             }))"

section \<open>\<open>netbios_encode_name\<close> (lines 581-597) and \<open>buffer_init\<close> (lines 219-226)\<close>

text \<open>
  The loop writes two letters for each of the 16 bytes of \<open>src\<close>; \<open>k\<close> is the number of
  turns left. The function's result is the 34 bytes it writes to \<open>name\<close>: the length
  byte 0x20, the 32 letters and the closing zero.
\<close>

fun encode_name_loop :: "nat \<Rightarrow> u8 list \<Rightarrow> nat \<Rightarrow> u8 list \<Rightarrow> u8 list option" where
  "encode_name_loop 0 src i out = Some out"
| "encode_name_loop (Suc k) src i out = do {
     c \<leftarrow> dec8be src i;
     encode_name_loop k src (i + 1)
       (out @ [0x41 + (drop_bit 4 c AND 0x0f), 0x41 + (c AND 0x0f)])
   }"

definition netbios_encode_name :: "u8 list \<Rightarrow> u8 list option" where
  "netbios_encode_name src = do {
     out \<leftarrow> encode_name_loop 16 src 0 [0x20];
     Some (out @ [0x00])
   }"

definition buffer_init :: "u8 list \<Rightarrow> nat \<Rightarrow> buffer option" where
  "buffer_init data sz =
     (if sz \<le> length data
      then Some \<lparr>buf_data = replicate sz 0x00 @ drop sz data, buf_size = sz, buf_length = 0\<rparr>
      else None)"

section \<open>\<open>nbstat_query\<close> (lines 619-722)\<close>

text \<open>
  What the sockets layer and the system answer is a parameter of the model: the
  results of \<open>winsock_init\<close> and \<open>nbstat_socket\<close> with the address the latter
  stores, the process id, the value \<open>sendto\<close> returns, the value \<open>select\<close> returns for a
  delay, whether the descriptor is in the set after \<open>select\<close>, and what \<open>recvfrom\<close>
  delivers: \<open>None\<close> for \<open>SOCKET_ERROR\<close>, or the datagram and its sender. The contents
  of the locals \<open>data\<close> and \<open>rep\<close> before anything is stored in them are parameters as
  well.
\<close>

record env =
  winsock_init_result :: int
  nbstat_socket_result :: int
  socket_sin :: sockaddr_in
  current_process_id :: u32
  sendto_result :: int
  select_result :: "int \<Rightarrow> int"
  fd_isset :: bool
  recvfrom_result :: "(u8 list \<times> sockaddr_in) option"
  data_local :: "u8 list"
  rep_local :: nbstat_response

definition SOCKET_ERROR :: int where "SOCKET_ERROR = - 1"

text \<open>
  Lines 328-341. A datagram longer than \<open>buffer->size\<close> does not fit: Winsock's
  \<open>recvfrom\<close> then fails.
\<close>

definition nbstat_recv :: "env \<Rightarrow> buffer \<Rightarrow> sockaddr_in \<Rightarrow> int \<times> buffer \<times> sockaddr_in" where
  "nbstat_recv e buffer sin =
     (case recvfrom_result e of
        None \<Rightarrow> (SOCKET_ERROR, buffer, sin)
      | Some (dgram, sender) \<Rightarrow>
          if length dgram \<le> buf_size buffer \<and> length dgram \<le> length (buf_data buffer)
          then (int (length dgram),
                buffer\<lparr>buf_data := dgram @ drop (length dgram) (buf_data buffer),
                       buf_length := length dgram\<rparr>,
                sender)
          else (SOCKET_ERROR, buffer, sin))"

text \<open>
  Lines 713-716, \<open>while (node != NULL) { count++; node = node->next; }\<close>. The walk
  frees nothing, so on a heap whose list runs in a circle it does not end: the value
  \<open>None\<close>, as for a read of a block that is not allocated.
\<close>

partial_function (option) count_nodes :: "heap \<Rightarrow> addr option \<Rightarrow> int \<Rightarrow> int option" where
  "count_nodes h nodep c =
     (case nodep of
        None \<Rightarrow> Some c
      | Some a \<Rightarrow>
          (case load h a of
             None \<Rightarrow> None
           | Some nd \<Rightarrow> count_nodes h (next_ptr nd) (c + 1)))"

declare count_nodes.simps [code]

text \<open>
  The function. \<open>nbstatp\<close> is \<open>*nbstat\<close>, the caller's pointer to the result object:
  \<open>None\<close> for \<open>NULL\<close>, else the object it points to. The object is not a node, so it is
  held by value and not in \<open>cells\<close>; its \<open>malloc\<close> draws on \<open>avail\<close> like any other.
\<close>

definition nbstat_query ::
  "env \<Rightarrow> heap \<Rightarrow> nbstat option \<Rightarrow> int \<Rightarrow> (int \<times> heap \<times> nbstat option) option" where
  "nbstat_query e h nbstatp timeout0 =
     (if winsock_init_result e \<noteq> 0 then Some (NBSTAT_EWSAFAIL, h, nbstatp)
      else if nbstat_socket_result e \<noteq> 0 then Some (NBSTAT_ESOCKET, h, nbstatp)
      else do {
        let sin = socket_sin e;
        let qh = \<lparr>name_trn_id = ucast (current_process_id e),
                  hdr_r = 0, opcode = OPCODE_QUERY, aa = 0, tc = 0, rd = 0, ra = 0,
                  unused1 = 0, unused2 = 0, hdr_b = 0, rcode = 0,
                  qdcount = 1, ancount = 0, nscount = 0, arcount = 0\<rparr>;
        let nbtname = (replicate 16 0x00)[0 := 0x2a];
        qn \<leftarrow> netbios_encode_name nbtname;
        let query = \<lparr>query_hdr = qh,
                     question = \<lparr>q_name = qn, q_type = QTYPE_NBSTAT, q_class = QCLASS_IN\<rparr>\<rparr>;
        buffer \<leftarrow> buffer_init (data_local e) 1024;
        (_, bufp) \<leftarrow> nbstat_encode_request (Some buffer) (Some query);
        buffer \<leftarrow> bufp;
        let result = sendto_result e;
        if result = SOCKET_ERROR \<or> result \<noteq> int (buf_length buffer)
        then Some (NBSTAT_EDEBUG, h, nbstatp)
        else do {
          buffer \<leftarrow> buffer_init (buf_data buffer) 1024;
          let timeout = normalize_timeout timeout0;
          let nready = select_result e timeout;
          if nready = SOCKET_ERROR then Some (NBSTAT_EDEBUG, h, nbstatp)
          else if nready = 0 then Some (NBSTAT_ETIMEOUT, h, nbstatp)
          else do {
            let (result, buffer, sin) =
              (if nready > 0 \<and> fd_isset e then nbstat_recv e buffer sin
               else (result, buffer, sin));
            if nready > 0 \<and> fd_isset e \<and> result = SOCKET_ERROR
            then Some (NBSTAT_EDEBUG, h, nbstatp)
            else do {
              (result, h, rep) \<leftarrow> nbstat_decode_response buffer h (rep_local e);
              if result \<noteq> NBSTAT_EOK then Some (result, h, nbstatp)
              else if avail h = 0 then Some (NBSTAT_ENOMEM, h, None)
              else do {
                let h = h\<lparr>avail := avail h - 1\<rparr>;
                let nb = \<lparr>nb_sin = (0, 0), nb_hwaddr = replicate 6 0x00, nb_count = 0,
                          nb_node = None\<rparr>;
                let nb = nb\<lparr>nb_sin := sin\<rparr>;
                let nb = nb\<lparr>nb_node := node rep\<rparr>;
                c \<leftarrow> count_nodes h (nb_node nb) (nb_count nb);
                let nb = nb\<lparr>nb_count := c\<rparr>;
                hw \<leftarrow> bytes_at (unit_id (stat rep)) 0 6;
                let nb = nb\<lparr>nb_hwaddr := hw\<rparr>;
                Some (NBSTAT_EOK, h, Some nb)
              }
            }
          }
        }
      })"

section \<open>Notions for the theorems and their proofs\<close>

text \<open>
  \<open>chain h p as\<close>: in the heap \<open>h\<close> the list that starts at the pointer \<open>p\<close> runs through
  exactly the allocated blocks at the addresses \<open>as\<close>, in this order, and ends with
  \<open>NULL\<close>.
\<close>

fun chain :: "heap \<Rightarrow> addr option \<Rightarrow> addr list \<Rightarrow> bool" where
  "chain h p [] = (p = None)"
| "chain h p (a # as) =
     (p = Some a \<and> (case load h a of None \<Rightarrow> False | Some nd \<Rightarrow> chain h (next_ptr nd) as))"

text \<open>
  The state of the entry loop after \<open>j\<close> turns that started on the heap \<open>h0\<close> with the
  cursor at \<open>p0\<close>: the heap has \<open>j\<close> new blocks after those of \<open>h0\<close>, linked in the order
  of their allocation from \<open>rep->node\<close>, \<open>tmp\<close> points to the last one, and the cursor has
  moved over \<open>j\<close> entries.
\<close>

definition built :: "heap \<Rightarrow> nat \<Rightarrow> entry_state \<Rightarrow> nat \<Rightarrow> bool" where
  "built h0 p0 s j \<longleftrightarrow>
     length (cells (es_heap s)) = length (cells h0) + j
     \<and> take (length (cells h0)) (cells (es_heap s)) = cells h0
     \<and> chain (es_heap s) (es_node s) [length (cells h0)..<length (cells h0) + j]
     \<and> (0 < j \<longrightarrow> es_tmp s = Some (length (cells h0) + j - 1))
     \<and> avail (es_heap s) + j = avail h0
     \<and> junk (es_heap s) = junk h0
     \<and> es_ptr s = p0 + 18 * j"

text \<open>The two bytes \<open>enc16be\<close> stores for a 16-bit value, high byte first.\<close>

definition be16 :: "u16 \<Rightarrow> u8 list" where
  "be16 x = [ucast (drop_bit 8 x AND 0xff), ucast (x AND 0xff)]"

section \<open>Concrete inputs\<close>

text \<open>
  The inputs on which the theorems are evaluated. \<open>datagram flags ty n payload\<close> is a
  node status response with the given flags word, resource-record type and count byte,
  followed by \<open>payload\<close>; \<open>received bytes\<close> is the buffer of \<open>nbstat_query\<close> after
  \<open>nbstat_recv\<close> has stored the datagram \<open>bytes\<close> in the zeroed array of 1024 bytes.
\<close>

definition datagram :: "u16 \<Rightarrow> u16 \<Rightarrow> u8 \<Rightarrow> u8 list \<Rightarrow> u8 list" where
  "datagram flags ty n payload =
     be16 0x1234 @ be16 flags @ be16 0 @ be16 1 @ be16 0 @ be16 0
     @ replicate 34 0x41 @ be16 ty @ be16 0x0001 @ replicate 4 0 @ be16 (of_nat (length payload) + 1)
     @ [n] @ payload"

definition name_entry :: "string \<Rightarrow> u8 \<Rightarrow> u16 \<Rightarrow> u8 list" where
  "name_entry name sfx flags = map of_char name @ [sfx] @ be16 flags"

definition statistics_block :: "u8 list" where
  "statistics_block = [0xAA, 0xBB, 0xCC, 0xDD, 0xEE, 0xFF] @ replicate 40 0"

definition received :: "u8 list \<Rightarrow> buffer" where
  "received bytes =
     \<lparr>buf_data = bytes @ replicate (1024 - length bytes) 0, buf_size = 1024,
      buf_length = length bytes\<rparr>"

definition blank_node :: nbstat_node_name where
  "blank_node = \<lparr>nbf_name = replicate 15 0, suffix = 0, node_g = 0, ont = 0, drg = 0, cnf = 0,
     act = 0, prm = 0, reserved = 0, next_ptr = None\<rparr>"

definition blank_response :: nbstat_response where
  "blank_response =
     \<lparr>hdr = \<lparr>name_trn_id = 0, hdr_r = 0, opcode = 0, aa = 0, tc = 0, rd = 0, ra = 0,
             unused1 = 0, unused2 = 0, hdr_b = 0, rcode = 0,
             qdcount = 0, ancount = 0, nscount = 0, arcount = 0\<rparr>,
      rr = \<lparr>rr_name = replicate 34 0, rr_type = 0, rr_class = 0, ttl = 0, rdlength = 0\<rparr>,
      num_names = 0, node = None,
      stat = \<lparr>unit_id = replicate 6 0, jumpers = 0, test_result = 0, version_number = 0,
              period_of_statistics = 0, number_of_crcs = 0, number_alignment_errors = 0,
              number_of_collisions = 0, number_send_aborts = 0, number_good_sends = 0,
              number_good_receives = 0, number_retransmits = 0,
              number_no_resource_conditions = 0, number_free_command_blocks = 0,
              total_number_command_blocks = 0, max_total_number_command_blocks = 0,
              number_pending_sessions = 0, max_number_pending_sessions = 0,
              max_total_sessions_possible = 0, session_data_packet_size = 0\<rparr>\<rparr>"

definition fresh_heap :: "nat \<Rightarrow> heap" where
  "fresh_heap k = \<lparr>cells = [], avail = k, junk = blank_node\<rparr>"

definition two_names :: "u8 list" where
  "two_names = name_entry ''WORKSTATION    '' 0x00 0x0400 @ name_entry ''FILESERVER     '' 0x20 0x0400"

definition buffer_2 :: buffer where
  "buffer_2 = received (datagram 0x8400 0x21 2 (two_names @ statistics_block))"

definition buffer_27 :: buffer where
  "buffer_27 = received (datagram 0x8400 0x21 27 (replicate (18 * 27) 0 @ statistics_block))"

definition buffer_query_flags :: buffer where
  "buffer_query_flags = received (datagram 0x0000 0x21 2 (two_names @ statistics_block))"

definition wildcard_query :: nbstat_query_msg where
  "wildcard_query =
     \<lparr>query_hdr = (hdr blank_response)\<lparr>name_trn_id := 0x1234, qdcount := 1\<rparr>,
      question = \<lparr>q_name = 0x20 # 0x43 # 0x4B # replicate 30 0x41 @ [0x00],
                  q_type = QTYPE_NBSTAT, q_class = QCLASS_IN\<rparr>\<rparr>"

definition answering_env :: "u8 list \<Rightarrow> env" where
  "answering_env bytes =
     \<lparr>winsock_init_result = 0, nbstat_socket_result = 0, socket_sin = (0xC0A801C8, 137),
      current_process_id = 0x1234, sendto_result = 50, select_result = (\<lambda>delay. 1),
      fd_isset = True, recvfrom_result = Some (bytes, (0xC0A801C8, 137)),
      data_local = replicate 1024 0xCC, rep_local = blank_response\<rparr>"

text \<open>
  The same surroundings, where \<open>select\<close> reports that the wait has run out when it is
  called with the delay \<open>d\<close>, and that the datagram has come with any other delay.
\<close>

definition punctual_env :: "int \<Rightarrow> env" where
  "punctual_env d = (answering_env (take 139 (buf_data buffer_2)))
     \<lparr>select_result := (\<lambda>delay. if delay = d then 0 else 1)\<rparr>"

section \<open>Lemmas\<close>

subsection \<open>Where the cursor stands after each stage\<close>

lemma decode_header_ptr:
  "decode_header mem p h0 = Some (hh, q) \<Longrightarrow> q = p + 12 \<and> p + 12 \<le> length mem"
  by (auto simp: decode_header_def Let_def dec16be_def split: Option.bind_splits if_splits)

lemma decode_header_Some:
  "p + 12 \<le> length mem \<Longrightarrow> \<exists>hh. decode_header mem p h0 = Some (hh, p + 12)"
  by (simp add: decode_header_def Let_def dec16be_def)

lemma unit_id_loop_ptr:
  "unit_id_loop mem k i uid p = Some (uid', q) \<Longrightarrow> q = p + k"
proof (induction k arbitrary: i uid p)
  case 0
  then show ?case by simp
next
  case (Suc k)
  from Suc.prems obtain v where "unit_id_loop mem k (i + 1) (uid[i := v]) (p + 1) = Some (uid', q)"
    by (auto split: Option.bind_splits if_splits)
  from Suc.IH [OF this] show ?case by simp
qed

lemma decode_stat_ptr:
  "decode_stat mem p st = Some (st', q) \<Longrightarrow> q = p + 46"
  by (auto simp: decode_stat_def Let_def dest!: unit_id_loop_ptr split: Option.bind_splits prod.splits)

lemma decode_entry_ret:
  "decode_entry mem s = Some (ret, s') \<Longrightarrow>
     (ret = None \<longrightarrow> es_ptr s' = es_ptr s + 18) \<and> (\<forall>c. ret = Some c \<longrightarrow> c = NBSTAT_ENOMEM)"
  by (auto simp: decode_entry_def Let_def split: prod.splits Option.bind_splits if_splits)

lemma entry_loop_ret:
  "entry_loop mem k s = Some (ret, s') \<Longrightarrow>
     (ret = None \<longrightarrow> es_ptr s' = es_ptr s + 18 * k) \<and> (\<forall>c. ret = Some c \<longrightarrow> c = NBSTAT_ENOMEM)"
proof (induction k arbitrary: s)
  case 0
  then show ?case by simp
next
  case (Suc k)
  then show ?case
    by (auto split: option.splits prod.splits dest!: decode_entry_ret)
qed

subsection \<open>Lists in the heap\<close>

lemma chain_update_other:
  "a \<notin> set as \<Longrightarrow> cells h' = (cells h)[a := v] \<Longrightarrow> chain h' p as = chain h p as"
proof (induction as arbitrary: p)
  case Nil
  then show ?case by simp
next
  case (Cons x as)
  then have "load h' x = load h x"
    by (auto simp: load_def)
  with Cons show ?case by (simp split: option.splits)
qed

lemma chain_snoc:
  assumes "chain h p (as @ [t])" and "distinct (as @ [t])" and "load h t = Some nd"
    and "cells h' = (cells h)[t := Some (nd\<lparr>next_ptr := Some (length (cells h))\<rparr>)] @ [Some c]"
    and "next_ptr c = None"
  shows "chain h' p (as @ [t, length (cells h)])"
  using assms(1,2)
proof (induction as arbitrary: p)
  case Nil
  from assms(3) have t: "t < length (cells h)"
    by (auto simp: load_def split: if_splits)
  from Nil t assms(4,5) show ?case
    by (auto simp: load_def nth_append split: option.splits)
next
  case (Cons a as)
  then obtain x where x: "p = Some a" "load h a = Some x" "chain h (next_ptr x) (as @ [t])"
    by (auto split: option.splits)
  from Cons.prems have "a \<noteq> t" by auto
  with x(2) assms(4) have "load h' a = Some x"
    by (auto simp: load_def nth_append split: if_splits)
  moreover from Cons.IH [OF x(3)] Cons.prems have "chain h' (next_ptr x) (as @ [t, length (cells h)])"
    by simp
  ultimately show ?case using x(1) by simp
qed

lemma free_chain:
  "chain h p as \<Longrightarrow> distinct as \<Longrightarrow>
   node_name_free_loop h p = Some (h\<lparr>cells := fold (\<lambda>a cs. cs[a := None]) as (cells h)\<rparr>)"
proof (induction as arbitrary: h p)
  case Nil
  then show ?case by simp
next
  case (Cons a as)
  then obtain x where x: "p = Some a" "load h a = Some x" "chain h (next_ptr x) as"
    by (auto split: option.splits)
  let ?h1 = "h\<lparr>cells := (cells h)[a := None]\<rparr>"
  from Cons.prems have "a \<notin> set as" by simp
  then have "chain ?h1 (next_ptr x) as = chain h (next_ptr x) as"
    by (rule chain_update_other) simp
  with x(3) have "chain ?h1 (next_ptr x) as" by simp
  from Cons.IH [OF this] Cons.prems
  have "node_name_free_loop ?h1 (next_ptr x) =
          Some (?h1\<lparr>cells := fold (\<lambda>a cs. cs[a := None]) as (cells ?h1)\<rparr>)"
    by simp
  with x(1,2) show ?case by (simp add: free_def)
qed

lemma fold_free_upt:
  "n0 + j \<le> length cs \<Longrightarrow>
   fold (\<lambda>a cs. cs[a := None]) [n0..<n0 + j] cs = take n0 cs @ replicate j None @ drop (n0 + j) cs"
proof (induction j)
  case 0
  then show ?case by simp
next
  case (Suc j)
  then have "fold (\<lambda>a cs. cs[a := None]) [n0..<n0 + Suc j] cs
      = (take n0 cs @ replicate j None @ drop (n0 + j) cs)[n0 + j := None]"
    by simp
  also have "\<dots> = take n0 cs @ replicate (Suc j) None @ drop (n0 + Suc j) cs"
  proof -
    let ?pre = "take n0 cs @ replicate j None"
    from Suc.prems have len: "length ?pre = n0 + j" by simp
    from Suc.prems have "drop (n0 + j) cs = cs ! (n0 + j) # drop (Suc (n0 + j)) cs"
      by (simp add: Cons_nth_drop_Suc)
    then have "(take n0 cs @ replicate j None @ drop (n0 + j) cs)[n0 + j := None]
        = (?pre @ cs ! (n0 + j) # drop (Suc (n0 + j)) cs)[length ?pre := None]"
      using len by simp
    also have "\<dots> = ?pre @ None # drop (Suc (n0 + j)) cs"
      by (rule list_update_length)
    also have "\<dots> = take n0 cs @ replicate (Suc j) None @ drop (n0 + Suc j) cs"
      by (simp add: replicate_append_same)
    finally show ?thesis .
  qed
  finally show ?case .
qed

subsection \<open>One turn of the entry loop\<close>

lemma decode_entry_first:
  assumes "avail (es_heap s) \<noteq> 0" and "es_ptr s + 18 \<le> length mem" and "es_node s = None"
  shows "\<exists>h' c.
     decode_entry mem s =
       Some (None, \<lparr>es_heap = h',
                    es_node = Some (length (cells (es_heap s))),
                    es_tmp = Some (length (cells (es_heap s))),
                    es_ptr = es_ptr s + 18\<rparr>)
     \<and> cells h' = cells (es_heap s) @ [Some c] \<and> next_ptr c = None
     \<and> avail h' = avail (es_heap s) - 1 \<and> junk h' = junk (es_heap s)"
  using assms
  by (simp add: decode_entry_def malloc_def upd_def load_def Let_def bytes_at_def dec8be_def
      dec16be_def)

lemma decode_entry_next:
  assumes "avail (es_heap s) \<noteq> 0" and "es_ptr s + 18 \<le> length mem" and "es_node s \<noteq> None"
    and "es_tmp s = Some t" and "load (es_heap s) t = Some nd"
  shows "\<exists>h' c.
     decode_entry mem s =
       Some (None, \<lparr>es_heap = h',
                    es_node = es_node s,
                    es_tmp = Some (length (cells (es_heap s))),
                    es_ptr = es_ptr s + 18\<rparr>)
     \<and> cells h' =
         (cells (es_heap s))[t := Some (nd\<lparr>next_ptr := Some (length (cells (es_heap s)))\<rparr>)]
           @ [Some c]
     \<and> next_ptr c = None
     \<and> avail h' = avail (es_heap s) - 1 \<and> junk h' = junk (es_heap s)"
proof -
  from assms(5) have t: "t < length (cells (es_heap s))" "cells (es_heap s) ! t = Some nd"
    by (auto simp: load_def split: if_splits)
  with assms(1-4) show ?thesis
    by (simp add: decode_entry_def malloc_def upd_def load_def Let_def bytes_at_def dec8be_def
        dec16be_def nth_append list_update_append)
qed

lemma built_init:
  "built h p \<lparr>es_heap = h, es_node = None, es_tmp = tmp, es_ptr = p\<rparr> 0"
  by (simp add: built_def)

lemma chain_last_live:
  "chain h p (as @ [t]) \<Longrightarrow> \<exists>nd. load h t = Some nd"
  by (induction as arbitrary: p) (auto split: option.splits)

lemma built_step:
  assumes b: "built h0 p0 s j" and a: "avail (es_heap s) \<noteq> 0"
    and m: "es_ptr s + 18 \<le> length mem"
  shows "\<exists>s'. decode_entry mem s = Some (None, s') \<and> built h0 p0 s' (Suc j)"
proof (cases j)
  case 0
  with b have n: "es_node s = None" by (simp add: built_def)
  from decode_entry_first [OF a m n] obtain h' c where
    d: "decode_entry mem s =
          Some (None, \<lparr>es_heap = h', es_node = Some (length (cells (es_heap s))),
                       es_tmp = Some (length (cells (es_heap s))), es_ptr = es_ptr s + 18\<rparr>)"
    and h': "cells h' = cells (es_heap s) @ [Some c]" "next_ptr c = None"
       "avail h' = avail (es_heap s) - 1" "junk h' = junk (es_heap s)"
    by blast
  from b 0 have len: "length (cells (es_heap s)) = length (cells h0)"
    by (simp add: built_def)
  from b have "take (length (cells h0)) (cells (es_heap s)) = cells h0"
    by (simp add: built_def)
  with len have tk: "cells (es_heap s) = cells h0"
    by (metis order_refl take_all)
  have "built h0 p0 \<lparr>es_heap = h', es_node = Some (length (cells (es_heap s))),
                       es_tmp = Some (length (cells (es_heap s))), es_ptr = es_ptr s + 18\<rparr> (Suc j)"
    using b 0 a h' len tk by (simp add: built_def load_def)
  with d show ?thesis by blast
next
  case (Suc i)
  let ?n0 = "length (cells h0)"
  let ?h = "es_heap s"
  from b Suc have ch: "chain ?h (es_node s) ([?n0..<?n0 + i] @ [?n0 + i])"
    and tmp: "es_tmp s = Some (?n0 + i)"
    and len: "length (cells ?h) = ?n0 + Suc i"
    by (simp_all add: built_def)
  from ch have n: "es_node s \<noteq> None"
    by (cases "[?n0..<?n0 + i]") auto
  from chain_last_live [OF ch] obtain nd where nd: "load ?h (?n0 + i) = Some nd" ..
  from decode_entry_next [OF a m n tmp nd] obtain h' c where
    d: "decode_entry mem s =
          Some (None, \<lparr>es_heap = h', es_node = es_node s,
                       es_tmp = Some (length (cells ?h)), es_ptr = es_ptr s + 18\<rparr>)"
    and h': "cells h' = (cells ?h)[?n0 + i := Some (nd\<lparr>next_ptr := Some (length (cells ?h))\<rparr>)] @ [Some c]"
       "next_ptr c = None" "avail h' = avail ?h - 1" "junk h' = junk ?h"
    by blast
  have dist: "distinct ([?n0..<?n0 + i] @ [?n0 + i])" by simp
  from chain_snoc [OF ch dist nd h'(1,2)]
  have ch': "chain h' (es_node s) ([?n0..<?n0 + i] @ [?n0 + i, length (cells ?h)])" .
  have upt: "[?n0..<?n0 + Suc (Suc i)] = [?n0..<?n0 + i] @ [?n0 + i, ?n0 + Suc i]"
    by simp
  from b Suc have tk: "take ?n0 (cells ?h) = cells h0" by (simp add: built_def)
  have "built h0 p0 \<lparr>es_heap = h', es_node = es_node s,
                       es_tmp = Some (length (cells ?h)), es_ptr = es_ptr s + 18\<rparr> (Suc j)"
    unfolding built_def Suc upt
    using b Suc a h' len tk ch' by (simp add: built_def)
  with d show ?thesis by blast
qed

lemma built_fail:
  assumes b: "built h0 p0 s j" and a: "avail (es_heap s) = 0"
  shows "\<exists>s'. decode_entry mem s = Some (Some NBSTAT_ENOMEM, s')
           \<and> cells (es_heap s') = cells h0 @ replicate j None
           \<and> avail (es_heap s') = 0 \<and> junk (es_heap s') = junk h0"
proof -
  let ?n0 = "length (cells h0)"
  let ?h = "es_heap s"
  from b have ch: "chain ?h (es_node s) [?n0..<?n0 + j]"
    and len: "length (cells ?h) = ?n0 + j" and tk: "take ?n0 (cells ?h) = cells h0"
    and jk: "junk ?h = junk h0"
    by (simp_all add: built_def)
  have "node_name_free_loop ?h (es_node s)
      = Some (?h\<lparr>cells := fold (\<lambda>a cs. cs[a := None]) [?n0..<?n0 + j] (cells ?h)\<rparr>)"
    by (rule free_chain [OF ch]) simp
  also have "fold (\<lambda>a cs. cs[a := None]) [?n0..<?n0 + j] (cells ?h) = cells h0 @ replicate j None"
    using fold_free_upt [of ?n0 j "cells ?h"] len tk by simp
  finally have fr: "node_name_free ?h (es_node s) = Some (?h\<lparr>cells := cells h0 @ replicate j None\<rparr>)"
    using ch by (cases j) (auto simp: node_name_free_def)
  show ?thesis
    using a fr jk by (simp add: decode_entry_def malloc_def)
qed

lemma entry_loop_run:
  assumes "built h0 p0 s j" and "es_ptr s + 18 * k \<le> length mem"
  shows "(k \<le> avail (es_heap s) \<longrightarrow>
            (\<exists>s'. entry_loop mem k s = Some (None, s') \<and> built h0 p0 s' (j + k)))
       \<and> (avail (es_heap s) < k \<longrightarrow>
            (\<exists>s'. entry_loop mem k s = Some (Some NBSTAT_ENOMEM, s')
               \<and> cells (es_heap s') = cells h0 @ replicate (avail h0) None
               \<and> avail (es_heap s') = 0 \<and> junk (es_heap s') = junk h0))"
  using assms
proof (induction k arbitrary: s j)
  case 0
  then show ?case by simp
next
  case (Suc k)
  show ?case
  proof (cases "avail (es_heap s) = 0")
    case True
    from built_fail [OF Suc.prems(1) True, of mem] Suc.prems(1) True show ?thesis
      by (auto simp: built_def)
  next
    case False
    from Suc.prems(2) have m: "es_ptr s + 18 \<le> length mem" by simp
    from built_step [OF Suc.prems(1) False m] obtain s' where
      s': "decode_entry mem s = Some (None, s')" "built h0 p0 s' (Suc j)"
      by blast
    from s'(2) Suc.prems have p: "es_ptr s' + 18 * k \<le> length mem"
      and av: "avail (es_heap s') + 1 = avail (es_heap s)"
      by (simp_all add: built_def)
    from Suc.IH [OF s'(2) p] s'(1) av False show ?thesis
      by auto
  qed
qed

subsection \<open>The decoder as a whole\<close>

lemma unit_id_loop_Some:
  "p + k \<le> length mem \<Longrightarrow> i + k \<le> length uid \<Longrightarrow>
   \<exists>uid'. unit_id_loop mem k i uid p = Some (uid', p + k)"
proof (induction k arbitrary: i uid p)
  case 0
  then show ?case by simp
next
  case (Suc k)
  from Suc.prems Suc.IH [of "p + 1" "i + 1" "uid[i := mem ! p]"] show ?case
    by (simp add: dec8be_def)
qed

lemma decode_stat_Some:
  assumes "p + 46 \<le> length mem" and "length (unit_id st) = 6"
  shows "\<exists>st'. decode_stat mem p st = Some (st', p + 46)"
proof -
  from assms unit_id_loop_Some [of p 6 mem 0 "unit_id st"]
  obtain uid' where "unit_id_loop mem 6 0 (unit_id st) p = Some (uid', p + 6)"
    by auto
  with assms(1) show ?thesis
    by (simp add: decode_stat_def Let_def dec8be_def dec16be_def dec32be_def)
qed

text \<open>The decoder up to the loop, for a buffer that passes the three checks.\<close>

lemma decode_to_loop:
  assumes len: "buf_length b \<le> 576"
    and ty: "dec16be (buf_data b) 46 = Some RR_TYPE_NBSTAT"
    and cnt: "dec8be (buf_data b) 56 = Some n"
    and tot: "buf_length b = 57 + 18 * unat n + 46"
    and hh: "decode_header (buf_data b) 0 (hdr rep) = Some (hh, 12)"
    and c1: "dec16be (buf_data b) 48 = Some v1"
    and c2: "dec32be (buf_data b) 50 = Some v2"
    and c3: "dec16be (buf_data b) 54 = Some v3"
  shows "nbstat_decode_response b h rep =
     (let rep1 = rep\<lparr>hdr := hh,
                      rr := (rr rep)\<lparr>rr_type := RR_TYPE_NBSTAT, rr_class := v1, ttl := v2, rdlength := v3\<rparr>,
                      num_names := n, node := None\<rparr>
      in Option.bind
           (entry_loop (buf_data b) (unat n) \<lparr>es_heap = h, es_node = None, es_tmp = None, es_ptr = 57\<rparr>)
           (\<lambda>(ret, s).
              case ret of
                Some code \<Rightarrow> Some (code, es_heap s, rep1\<lparr>node := es_node s\<rparr>)
              | None \<Rightarrow>
                  Option.bind (decode_stat (buf_data b) (es_ptr s) (stat rep))
                    (\<lambda>(st, ptr). Some (if ptr \<noteq> buf_length b then NBSTAT_EDEBUG else NBSTAT_EOK,
                                       es_heap s, rep1\<lparr>node := es_node s, stat := st\<rparr>))))"
  using assms
  by (simp add: nbstat_decode_response_def Let_def cong: option.case_cong)

lemma decode_fields_Some:
  assumes "57 \<le> length mem"
  shows "\<exists>hh v1 v2 v3. decode_header mem 0 h0 = Some (hh, 12) \<and> dec16be mem 48 = Some v1
           \<and> dec32be mem 50 = Some v2 \<and> dec16be mem 54 = Some v3"
  using assms decode_header_Some [of 0 mem h0]
  by (auto simp: dec16be_def dec32be_def)

lemma decode_ok:
  assumes len: "buf_length b \<le> 576"
    and ty: "dec16be (buf_data b) 46 = Some RR_TYPE_NBSTAT"
    and cnt: "dec8be (buf_data b) 56 = Some n"
    and tot: "buf_length b = 57 + 18 * unat n + 46"
    and mem: "buf_length b \<le> length (buf_data b)"
    and av: "unat n \<le> avail h"
    and uid: "length (unit_id (stat rep)) = 6"
  shows "\<exists>h' rep'. nbstat_decode_response b h rep = Some (NBSTAT_EOK, h', rep')
           \<and> num_names rep' = n
           \<and> chain h' (node rep') [length (cells h)..<length (cells h) + unat n]
           \<and> (\<exists>p. decode_header (buf_data b) 0 (hdr rep) = Some (hdr rep', p))"
proof -
  let ?mem = "buf_data b"
  from tot mem have "57 \<le> length ?mem" by simp
  from decode_fields_Some [OF this, of "hdr rep"] obtain hh v1 v2 v3 where
    f: "decode_header ?mem 0 (hdr rep) = Some (hh, 12)" "dec16be ?mem 48 = Some v1"
       "dec32be ?mem 50 = Some v2" "dec16be ?mem 54 = Some v3"
    by blast
  let ?s0 = "\<lparr>es_heap = h, es_node = None, es_tmp = None, es_ptr = 57\<rparr>"
  have b0: "built h 57 ?s0 0" by (rule built_init)
  from tot mem have "es_ptr ?s0 + 18 * unat n \<le> length ?mem" by simp
  from entry_loop_run [OF b0 this] av obtain s' where
    s': "entry_loop ?mem (unat n) ?s0 = Some (None, s')" "built h 57 s' (unat n)"
    by auto
  from s'(2) have p: "es_ptr s' = 57 + 18 * unat n"
    and ch: "chain (es_heap s') (es_node s') [length (cells h)..<length (cells h) + unat n]"
    by (simp_all add: built_def)
  from p tot mem have "es_ptr s' + 46 \<le> length ?mem" by simp
  from decode_stat_Some [OF this uid] obtain st' where
    st: "decode_stat ?mem (es_ptr s') (stat rep) = Some (st', es_ptr s' + 46)"
    by blast
  show ?thesis
    using s'(1) st p tot ch f(1)
    by (simp add: decode_to_loop [OF len ty cnt tot f] Let_def)
qed

lemma decode_nomem:
  assumes len: "buf_length b \<le> 576"
    and ty: "dec16be (buf_data b) 46 = Some RR_TYPE_NBSTAT"
    and cnt: "dec8be (buf_data b) 56 = Some n"
    and tot: "buf_length b = 57 + 18 * unat n + 46"
    and mem: "buf_length b \<le> length (buf_data b)"
    and av: "avail h < unat n"
  shows "\<exists>h' rep'. nbstat_decode_response b h rep = Some (NBSTAT_ENOMEM, h', rep')
           \<and> cells h' = cells h @ replicate (avail h) None
           \<and> avail h' = 0 \<and> junk h' = junk h"
proof -
  let ?mem = "buf_data b"
  from tot mem have "57 \<le> length ?mem" by simp
  from decode_fields_Some [OF this, of "hdr rep"] obtain hh v1 v2 v3 where
    f: "decode_header ?mem 0 (hdr rep) = Some (hh, 12)" "dec16be ?mem 48 = Some v1"
       "dec32be ?mem 50 = Some v2" "dec16be ?mem 54 = Some v3"
    by blast
  let ?s0 = "\<lparr>es_heap = h, es_node = None, es_tmp = None, es_ptr = 57\<rparr>"
  have b0: "built h 57 ?s0 0" by (rule built_init)
  from tot mem have "es_ptr ?s0 + 18 * unat n \<le> length ?mem" by simp
  from entry_loop_run [OF b0 this] av obtain s' where
    s': "entry_loop ?mem (unat n) ?s0 = Some (Some NBSTAT_ENOMEM, s')"
      "cells (es_heap s') = cells h @ replicate (avail h) None"
      "avail (es_heap s') = 0" "junk (es_heap s') = junk h"
    by auto
  then show ?thesis
    by (simp add: decode_to_loop [OF len ty cnt tot f] Let_def)
qed

lemma decode_length_mismatch:
  assumes "57 \<le> length (buf_data b)"
    and "buf_length b \<noteq> 57 + 18 * unat (buf_data b ! 56) + 46"
  shows "\<exists>rep'. nbstat_decode_response b h rep = Some (NBSTAT_EPROTO, h, rep')"
proof -
  from decode_fields_Some [OF assms(1), of "hdr rep"] obtain hh v1 v2 v3 where
    f: "decode_header (buf_data b) 0 (hdr rep) = Some (hh, 12)" "dec16be (buf_data b) 48 = Some v1"
       "dec32be (buf_data b) 50 = Some v2" "dec16be (buf_data b) 54 = Some v3"
    by blast
  from assms(1) obtain t where t: "dec16be (buf_data b) 46 = Some t"
    by (simp add: dec16be_def)
  from assms(1) have c: "dec8be (buf_data b) 56 = Some (buf_data b ! 56)"
    by (simp add: dec8be_def)
  from f t c assms(2) show ?thesis
    by (simp add: nbstat_decode_response_def Let_def)
qed

lemma decode_oversize:
  "576 < buf_length b \<Longrightarrow> nbstat_decode_response b h rep = Some (NBSTAT_EPROTO, h, rep)"
  by (simp add: nbstat_decode_response_def)

lemma decode_wrong_type:
  assumes "buf_length b \<le> 576" and "dec16be (buf_data b) 46 = Some t" and "t \<noteq> RR_TYPE_NBSTAT"
  shows "\<exists>rep'. nbstat_decode_response b h rep = Some (NBSTAT_EPROTO, h, rep')"
proof -
  from assms(2) have "0 + 12 \<le> length (buf_data b)"
    by (simp add: dec16be_def split: if_splits)
  from decode_header_Some [OF this] obtain hh where
    "decode_header (buf_data b) 0 (hdr rep) = Some (hh, 12)" by auto
  with assms show ?thesis
    by (simp add: nbstat_decode_response_def Let_def)
qed

subsection \<open>The encoder and the query\<close>

lemma enc16be_append:
  assumes "p + 1 < length mem"
  shows "enc16be mem p x = Some (take p mem @ be16 x @ drop (p + 2) mem)"
proof -
  have "mem[p := a, p + 1 := c] = take p mem @ [a, c] @ drop (p + 2) mem" for a c
    using assms
    by (intro nth_equalityI)
      (auto simp: nth_append nth_list_update nth_Cons' min_def intro!: arg_cong [of _ _ "(!) mem"])
  with assms show ?thesis by (simp add: enc16be_def be16_def)
qed

lemma encode_bytes:
  assumes "50 \<le> length (buf_data b)" and "length (q_name (question q)) = 34"
  shows "nbstat_encode_request (Some b) (Some q) =
     Some (NBSTAT_EOK,
       Some (b\<lparr>buf_data :=
                 be16 (name_trn_id (query_hdr q)) @ be16 (encode_flags (query_hdr q))
                 @ be16 (qdcount (query_hdr q)) @ be16 (ancount (query_hdr q))
                 @ be16 (nscount (query_hdr q)) @ be16 (arcount (query_hdr q))
                 @ q_name (question q)
                 @ be16 (q_type (question q)) @ be16 (q_class (question q))
                 @ drop 50 (buf_data b),
               buf_length := 50\<rparr>))"
proof -
  have l: "length (be16 x) = 2" for x by (simp add: be16_def)
  show ?thesis
    using assms
    by (simp add: nbstat_encode_request_def Let_def enc16be_append memcpy_into_def l)
qed


lemma encode_einval:
  "(\<exists>r. nbstat_encode_request bp qp = Some (NBSTAT_EINVAL, r)) \<longleftrightarrow> bp = None \<or> qp = None"
  by (auto simp: nbstat_encode_request_def Let_def nbstat_codes
      split: option.splits Option.bind_splits)

lemma query_failure_no_result:
  "nbstat_query e h p t = Some (rc, h', p') \<Longrightarrow> rc \<noteq> NBSTAT_EOK \<Longrightarrow> p' = p \<or> p' = None"
  by (auto simp: nbstat_query_def Let_def
      split: if_splits Option.bind_splits prod.splits option.splits)

text \<open>
  The timeout reaches the wait only through \<open>normalize_timeout\<close>: the query gives the same
  result for \<open>t\<close> and for its normalised value, and \<open>select\<close> is asked for no other delay.
\<close>

lemma normalize_timeout_idem:
  "normalize_timeout (normalize_timeout t) = normalize_timeout t"
  by (simp add: normalize_timeout_def)

lemma query_normalizes_timeout:
  "nbstat_query e h p t = nbstat_query e h p (normalize_timeout t)"
  by (simp only: nbstat_query_def normalize_timeout_idem)

lemma query_waits_normalized:
  "nbstat_query (e\<lparr>select_result := f\<rparr>) h p t
   = nbstat_query (e\<lparr>select_result := (\<lambda>delay. f (normalize_timeout t))\<rparr>) h p t"
  by (simp add: nbstat_query_def nbstat_recv_def Let_def cong: if_cong)

subsection \<open>The flags word does not steer the decoder\<close>

lemma dec8be_flags_upd:
  "4 \<le> p \<Longrightarrow> dec8be (mem[2 := x, 3 := y]) p = dec8be mem p"
  by (simp add: dec8be_def)

lemma dec16be_flags_upd:
  "4 \<le> p \<Longrightarrow> dec16be (mem[2 := x, 3 := y]) p = dec16be mem p"
  by (simp add: dec16be_def)

lemma dec32be_flags_upd:
  "4 \<le> p \<Longrightarrow> dec32be (mem[2 := x, 3 := y]) p = dec32be mem p"
  by (simp add: dec32be_def)

lemma bytes_at_flags_upd:
  "4 \<le> p \<Longrightarrow> bytes_at (mem[2 := x, 3 := y]) p n = bytes_at mem p n"
  by (simp add: bytes_at_def drop_update_cancel)

lemmas flags_upd = dec8be_flags_upd dec16be_flags_upd dec32be_flags_upd bytes_at_flags_upd

lemma decode_entry_flags_upd:
  "4 \<le> es_ptr s \<Longrightarrow> decode_entry (mem[2 := x, 3 := y]) s = decode_entry mem s"
  by (simp add: decode_entry_def flags_upd Let_def cong: if_cong)

lemma entry_loop_flags_upd:
  "4 \<le> es_ptr s \<Longrightarrow> entry_loop (mem[2 := x, 3 := y]) k s = entry_loop mem k s"
proof (induction k arbitrary: s)
  case 0
  then show ?case by simp
next
  case (Suc k)
  show ?case
  proof (cases "decode_entry mem s")
    case None
    with Suc.prems show ?thesis by (simp add: decode_entry_flags_upd)
  next
    case (Some r)
    obtain ret s' where r: "r = (ret, s')" by (cases r)
    from Some r decode_entry_ret [of mem s ret s'] Suc.prems
    have "ret = None \<Longrightarrow> 4 \<le> es_ptr s'" by simp
    with Some r Suc.prems Suc.IH [of s'] show ?thesis
      by (cases ret) (simp_all add: decode_entry_flags_upd)
  qed
qed

lemma unit_id_loop_flags_upd:
  "4 \<le> p \<Longrightarrow> unit_id_loop (mem[2 := x, 3 := y]) k i uid p = unit_id_loop mem k i uid p"
proof (induction k arbitrary: i uid p)
  case 0
  then show ?case by simp
next
  case (Suc k)
  then show ?case
    by (cases "dec8be mem p") (simp_all add: flags_upd)
qed

lemma decode_stat_flags_upd:
  assumes "4 \<le> p"
  shows "decode_stat (mem[2 := x, 3 := y]) p st = decode_stat mem p st"
proof (cases "unit_id_loop mem 6 0 (unit_id st) p")
  case None
  with assms show ?thesis
    by (simp add: decode_stat_def unit_id_loop_flags_upd del: unit_id_loop.simps)
next
  case (Some r)
  obtain uid' q where r: "r = (uid', q)" by (cases r)
  from Some r have "q = p + 6" by (auto dest: unit_id_loop_ptr)
  with assms Some r show ?thesis
    by (simp add: decode_stat_def unit_id_loop_flags_upd flags_upd Let_def del: unit_id_loop.simps)
qed

lemma decode_short:
  assumes "buf_length b \<le> 576" and "length (buf_data b) < 57"
  shows "nbstat_decode_response b h rep = None
       \<or> (\<exists>t rep'. dec16be (buf_data b) 46 = Some t \<and> t \<noteq> RR_TYPE_NBSTAT
            \<and> nbstat_decode_response b h rep = Some (NBSTAT_EPROTO, h, rep'))"
  using assms
  by (auto simp: nbstat_decode_response_def Let_def dec8be_def
      dest!: decode_header_ptr split: Option.bind_splits if_splits)

lemma decode_short_iff:
  assumes "buf_length b \<le> 576" and "length (buf_data b) < 57"
  shows "map_option fst (nbstat_decode_response b h rep) =
     (case dec16be (buf_data b) 46 of
        None \<Rightarrow> None
      | Some t \<Rightarrow> if t \<noteq> RR_TYPE_NBSTAT then Some NBSTAT_EPROTO else None)"
proof (cases "dec16be (buf_data b) 46")
  case None
  with assms(1) have "nbstat_decode_response b h rep = None"
    by (cases "decode_header (buf_data b) 0 (hdr rep)")
      (auto simp: nbstat_decode_response_def Let_def dest!: decode_header_ptr)
  with None show ?thesis by simp
next
  case (Some t)
  show ?thesis
  proof (cases "t = RR_TYPE_NBSTAT")
    case True
    with decode_short [OF assms, of h rep] Some show ?thesis by auto
  next
    case False
    from decode_wrong_type [OF assms(1) Some False, of h rep] Some False show ?thesis
      by auto
  qed
qed

lemma decode_ignores_flags_aux:
  "map_option fst (nbstat_decode_response (b\<lparr>buf_data := (buf_data b)[2 := x, 3 := y]\<rparr>) h rep)
   = map_option fst (nbstat_decode_response b h rep)"
proof -
  let ?b' = "b\<lparr>buf_data := (buf_data b)[2 := x, 3 := y]\<rparr>"
  let ?mem = "buf_data b"
  let ?mem' = "(buf_data b)[2 := x, 3 := y]"
  have ty': "dec16be (buf_data ?b') 46 = dec16be ?mem 46"
    by (simp add: flags_upd)
  consider (over) "576 < buf_length b"
    | (short) "buf_length b \<le> 576" "length ?mem < 57"
    | (long) "buf_length b \<le> 576" "57 \<le> length ?mem"
    by linarith
  then show ?thesis
  proof cases
    case over
    then show ?thesis by (simp add: decode_oversize)
  next
    case short
    then have "buf_length ?b' \<le> 576" "length (buf_data ?b') < 57" by simp_all
    from decode_short_iff [OF this, of h rep] decode_short_iff [OF short, of h rep] ty'
    show ?thesis by simp
  next
    case long
    then obtain t where t: "dec16be ?mem 46 = Some t"
      by (auto simp: dec16be_def)
    have len': "buf_length ?b' \<le> 576" using long by simp
    show ?thesis
    proof (cases "t = RR_TYPE_NBSTAT")
      case False
      from decode_wrong_type [OF long(1) t False, of h rep]
        decode_wrong_type [OF len' _ False, of h rep] t ty'
      show ?thesis by auto
    next
      case True
      show ?thesis
      proof (cases "buf_length b = 57 + 18 * unat (?mem ! 56) + 46")
        case False
        from long have l': "57 \<le> length (buf_data ?b')" by simp
        from False have m': "buf_length ?b' \<noteq> 57 + 18 * unat (buf_data ?b' ! 56) + 46" by simp
        from decode_length_mismatch [OF long(2) False, of h rep]
          decode_length_mismatch [OF l' m', of h rep]
        show ?thesis by auto
      next
        case tot: True
        let ?n = "?mem ! 56"
        from long have cnt: "dec8be ?mem 56 = Some ?n" by (simp add: dec8be_def)
        from decode_fields_Some [OF long(2), of "hdr rep"] obtain hh v1 v2 v3 where
          f: "decode_header ?mem 0 (hdr rep) = Some (hh, 12)" "dec16be ?mem 48 = Some v1"
            "dec32be ?mem 50 = Some v2" "dec16be ?mem 54 = Some v3"
          by blast
        from long have "57 \<le> length ?mem'" by simp
        from decode_fields_Some [OF this, of "hdr rep"] obtain hh' where
          f': "decode_header ?mem' 0 (hdr rep) = Some (hh', 12)"
          by blast
        have ty: "dec16be ?mem 46 = Some RR_TYPE_NBSTAT" using t True by simp
        have tot1: "buf_length b = 57 + 18 * unat ?n + 46" using tot by simp
        note nf = decode_to_loop [OF long(1) ty cnt tot1 f, of h]
        have p: "buf_length ?b' \<le> 576" "dec16be (buf_data ?b') 46 = Some RR_TYPE_NBSTAT"
          "dec8be (buf_data ?b') 56 = Some ?n" "buf_length ?b' = 57 + 18 * unat ?n + 46"
          "decode_header (buf_data ?b') 0 (hdr rep) = Some (hh', 12)"
          "dec16be (buf_data ?b') 48 = Some v1" "dec32be (buf_data ?b') 50 = Some v2"
          "dec16be (buf_data ?b') 54 = Some v3"
          using long ty cnt tot1 f f' by (simp_all add: flags_upd)
        note nf' = decode_to_loop [OF p, of h]
        show ?thesis
        proof (cases "entry_loop ?mem (unat ?n) \<lparr>es_heap = h, es_node = None, es_tmp = None, es_ptr = 57\<rparr>")
          case None
          then show ?thesis by (simp add: nf nf' Let_def entry_loop_flags_upd)
        next
          case (Some r)
          obtain ret s where r: "r = (ret, s)" by (cases r)
          show ?thesis
          proof (cases ret)
            case None
            with Some r entry_loop_ret [of ?mem "unat ?n" _ ret s]
            have "4 \<le> es_ptr s" by simp
            then have "decode_stat (buf_data ?b') (es_ptr s) (stat rep)
                = decode_stat ?mem (es_ptr s) (stat rep)"
              by (simp add: decode_stat_flags_upd)
            with Some r None show ?thesis
              by (cases "decode_stat ?mem (es_ptr s) (stat rep)")
                (auto simp: nf nf' Let_def entry_loop_flags_upd)
          next
            case (Some code)
            with \<open>entry_loop ?mem (unat ?n) \<lparr>es_heap = h, es_node = None, es_tmp = None, es_ptr = 57\<rparr> = Some r\<close> r
            show ?thesis by (simp add: nf nf' Let_def entry_loop_flags_upd)
          qed
        qed
      qed
    qed
  qed
qed

lemma decode_keeps_header:
  "nbstat_decode_response b h rep = Some (rc, h', rep') \<Longrightarrow> buf_length b \<le> 576 \<Longrightarrow>
   decode_header (buf_data b) 0 (hdr rep) = Some (hdr rep', 12)"
  by (auto simp: nbstat_decode_response_def Let_def
      dest!: decode_header_ptr split: Option.bind_splits if_splits option.splits prod.splits)

lemma decode_header_flags:
  "decode_header mem 0 h0 = Some (hh, q) \<Longrightarrow> dec16be mem 2 = Some flags \<Longrightarrow>
     hdr_r hh = ucast (drop_bit 15 flags AND 0x1) \<and> opcode hh = ucast (drop_bit 11 flags AND 0xf)
     \<and> aa hh = ucast flags \<and> tc hh = ucast flags \<and> rd hh = ucast flags \<and> ra hh = ucast flags
     \<and> unused1 hh = ucast flags \<and> unused2 hh = ucast flags \<and> hdr_b hh = ucast flags
     \<and> rcode hh = ucast flags"
  by (auto simp: decode_header_def Let_def numeral_2_eq_2 split: Option.bind_splits)

lemma bit15_of_flags:
  "(ucast (drop_bit 15 (flags :: u16) AND 0x1) :: 1 word) = (if bit flags 15 then 1 else 0)"
  by (rule bit_word_eqI) (auto simp: bit_simps)

section \<open>Theorems\<close>

text \<open>
  C1, as the code has it. The header is 12 bytes, the resource record 44, the count
  byte 1. For every count \<open>N\<close> up to 26, a buffer of exactly \<open>12 + 44 + 1 + 18 * N + 46\<close>
  bytes with type 0x0021 and count byte \<open>N\<close>, held in storage of at least that length,
  decodes with \<open>NBSTAT_EOK\<close> when its \<open>N\<close> allocations succeed, to a list of \<open>N\<close> entries
  (the array \<open>rep->stat.unit_id\<close> having its six elements).
  For \<open>N\<close> from 27 on, that length exceeds 576 and the buffer is rejected with
  \<open>NBSTAT_EPROTO\<close>. A buffer of any length other than the one its count byte asks for
  (storage of at least 57 bytes) is rejected with \<open>NBSTAT_EPROTO\<close> and the heap is left
  alone. In each case the decoder returns: no access leaves the storage.
\<close>

theorem decode_length_consistency:
  "(N \<le> 26 \<and> buf_length b = 12 + 44 + 1 + 18 * N + 46 \<and> buf_length b \<le> length (buf_data b)
      \<and> dec16be (buf_data b) 46 = Some 0x0021 \<and> dec8be (buf_data b) 56 = Some (of_nat N)
      \<and> N \<le> avail h \<and> length (unit_id (stat rep)) = 6
    \<longrightarrow> (\<exists>h' rep'. nbstat_decode_response b h rep = Some (NBSTAT_EOK, h', rep')
           \<and> num_names rep' = of_nat N
           \<and> chain h' (node rep') [length (cells h)..<length (cells h) + N]))
   \<and> (27 \<le> N \<and> buf_length b = 12 + 44 + 1 + 18 * N + 46
    \<longrightarrow> nbstat_decode_response b h rep = Some (NBSTAT_EPROTO, h, rep))
   \<and> (57 \<le> length (buf_data b)
      \<and> buf_length b \<noteq> 12 + 44 + 1 + 18 * unat (buf_data b ! 56) + 46
    \<longrightarrow> (\<exists>rep'. nbstat_decode_response b h rep = Some (NBSTAT_EPROTO, h, rep')))"
proof (intro conjI impI)
  assume a: "N \<le> 26 \<and> buf_length b = 12 + 44 + 1 + 18 * N + 46
      \<and> buf_length b \<le> length (buf_data b)
      \<and> dec16be (buf_data b) 46 = Some 0x0021 \<and> dec8be (buf_data b) 56 = Some (of_nat N)
      \<and> N \<le> avail h \<and> length (unit_id (stat rep)) = 6"
  then have u: "unat (of_nat N :: u8) = N"
    by (simp add: unat_of_nat)
  from a u have "buf_length b \<le> 576" "dec16be (buf_data b) 46 = Some RR_TYPE_NBSTAT"
    "dec8be (buf_data b) 56 = Some (of_nat N)"
    "buf_length b = 57 + 18 * unat (of_nat N :: u8) + 46" "buf_length b \<le> length (buf_data b)"
    "unat (of_nat N :: u8) \<le> avail h" "length (unit_id (stat rep)) = 6"
    by (simp_all add: RR_TYPE_NBSTAT_def)
  from decode_ok [OF this] u
  show "\<exists>h' rep'. nbstat_decode_response b h rep = Some (NBSTAT_EOK, h', rep')
           \<and> num_names rep' = of_nat N
           \<and> chain h' (node rep') [length (cells h)..<length (cells h) + N]"
    by auto
next
  assume "27 \<le> N \<and> buf_length b = 12 + 44 + 1 + 18 * N + 46"
  then have "576 < buf_length b" by simp
  then show "nbstat_decode_response b h rep = Some (NBSTAT_EPROTO, h, rep)"
    by (rule decode_oversize)
next
  assume "57 \<le> length (buf_data b)
      \<and> buf_length b \<noteq> 12 + 44 + 1 + 18 * unat (buf_data b ! 56) + 46"
  then show "\<exists>rep'. nbstat_decode_response b h rep = Some (NBSTAT_EPROTO, h, rep')"
    using decode_length_mismatch [of b h rep] by simp
qed

theorem decode_length_consistency_witness:
  "(\<exists>h' rep'. nbstat_decode_response buffer_2 (fresh_heap 2) blank_response
                 = Some (NBSTAT_EOK, h', rep')
        \<and> num_names rep' = of_nat 2
        \<and> chain h' (node rep')
             [length (cells (fresh_heap 2))..<length (cells (fresh_heap 2)) + 2])
   \<and> buf_length buffer_2 = 12 + 44 + 1 + 18 * 2 + 46
   \<and> nbstat_decode_response buffer_27 (fresh_heap 27) blank_response
       = Some (NBSTAT_EPROTO, fresh_heap 27, blank_response)
   \<and> buf_length buffer_27 = 12 + 44 + 1 + 18 * 27 + 46
   \<and> (\<exists>rep'. nbstat_decode_response (buffer_2\<lparr>buf_length := 138\<rparr>) (fresh_heap 2) blank_response
                 = Some (NBSTAT_EPROTO, fresh_heap 2, rep'))"
proof -
  have h1: "(2::nat) \<le> 26 \<and> buf_length buffer_2 = 12 + 44 + 1 + 18 * 2 + 46
      \<and> buf_length buffer_2 \<le> length (buf_data buffer_2)
      \<and> dec16be (buf_data buffer_2) 46 = Some 0x0021
      \<and> dec8be (buf_data buffer_2) 56 = Some (of_nat 2)
      \<and> 2 \<le> avail (fresh_heap 2) \<and> length (unit_id (stat blank_response)) = 6"
    by code_simp
  have h2: "(27::nat) \<le> 27 \<and> buf_length buffer_27 = 12 + 44 + 1 + 18 * 27 + 46"
    by code_simp
  have h3: "57 \<le> length (buf_data (buffer_2\<lparr>buf_length := 138\<rparr>))
      \<and> buf_length (buffer_2\<lparr>buf_length := 138\<rparr>)
          \<noteq> 12 + 44 + 1 + 18 * unat (buf_data (buffer_2\<lparr>buf_length := 138\<rparr>) ! 56) + 46"
    by code_simp
  from decode_length_consistency [of 2 buffer_2 "fresh_heap 2" blank_response] h1
  have r1: "\<exists>h' rep'. nbstat_decode_response buffer_2 (fresh_heap 2) blank_response
                 = Some (NBSTAT_EOK, h', rep')
        \<and> num_names rep' = of_nat 2
        \<and> chain h' (node rep')
             [length (cells (fresh_heap 2))..<length (cells (fresh_heap 2)) + 2]"
    by blast
  from decode_length_consistency [of 27 buffer_27 "fresh_heap 27" blank_response] h2
  have r2: "nbstat_decode_response buffer_27 (fresh_heap 27) blank_response
       = Some (NBSTAT_EPROTO, fresh_heap 27, blank_response)"
    by blast
  from decode_length_consistency [of _ "buffer_2\<lparr>buf_length := 138\<rparr>" "fresh_heap 2" blank_response] h3
  have r3: "\<exists>rep'. nbstat_decode_response (buffer_2\<lparr>buf_length := 138\<rparr>) (fresh_heap 2) blank_response
                 = Some (NBSTAT_EPROTO, fresh_heap 2, rep')"
    by blast
  from r1 r2 r3 h1 h2 show ?thesis by blast
qed

theorem decode_27_names_rejected:
  "buf_length buffer_27 = 12 + 44 + 1 + 18 * 27 + 46
   \<and> buf_length buffer_27 \<le> length (buf_data buffer_27)
   \<and> dec16be (buf_data buffer_27) 46 = Some 0x0021
   \<and> dec8be (buf_data buffer_27) 56 = Some 27
   \<and> 27 \<le> avail (fresh_heap 27)
   \<and> map_option fst (nbstat_decode_response buffer_27 (fresh_heap 27) blank_response)
       = Some NBSTAT_EPROTO
   \<and> NBSTAT_EPROTO \<noteq> NBSTAT_EOK"
  by code_simp

text \<open>
  C2, evaluated on two datagrams. With the flags word 0x8400, bit 10 (authoritative
  answer) is set on the wire and the decoded \<open>aa\<close> is 0. With the flags word 0x8001,
  bits 4 to 10 are clear on the wire and the seven decoded NM-flags are all 1: each of
  them is bit 0 of the flags word.
\<close>

theorem decode_nm_flags_from_low_bits:
  "dec16be (buf_data buffer_2) 2 = Some 0x8400
   \<and> bit (0x8400 :: u16) 10
   \<and> map_option (\<lambda>(rc, h, r). (rc, aa (hdr r)))
        (nbstat_decode_response buffer_2 (fresh_heap 2) blank_response)
       = Some (NBSTAT_EOK, 0)
   \<and> dec16be (buf_data (received (datagram 0x8001 0x21 2 (two_names @ statistics_block)))) 2
       = Some 0x8001
   \<and> (0x8001 :: u16) AND 0x07F0 = 0
   \<and> map_option (\<lambda>(rc, h, r). (rc, [aa (hdr r), tc (hdr r), rd (hdr r), ra (hdr r),
                                        unused1 (hdr r), unused2 (hdr r), hdr_b (hdr r)]))
        (nbstat_decode_response (received (datagram 0x8001 0x21 2 (two_names @ statistics_block)))
           (fresh_heap 2) blank_response)
       = Some (NBSTAT_EOK, [1, 1, 1, 1, 1, 1, 1])"
  by code_simp

text \<open>
  C3, as the code has it. The decoder does not look at the response bit: the code it
  returns is the same whatever the two bytes of the flags word are, and the bit is
  stored as given, \<open>r\<close> being bit 15 of the flags word.
\<close>

theorem decode_flags_taken_as_given:
  "map_option fst
     (nbstat_decode_response (b\<lparr>buf_data := (buf_data b)[2 := x, 3 := y]\<rparr>) h rep)
     = map_option fst (nbstat_decode_response b h rep)
   \<and> (nbstat_decode_response b h rep = Some (rc, h', rep') \<and> buf_length b \<le> 576
        \<and> dec16be (buf_data b) 2 = Some flags
      \<longrightarrow> hdr_r (hdr rep') = (if bit flags 15 then 1 else 0))"
proof (intro conjI impI)
  show "map_option fst
     (nbstat_decode_response (b\<lparr>buf_data := (buf_data b)[2 := x, 3 := y]\<rparr>) h rep)
     = map_option fst (nbstat_decode_response b h rep)"
    by (rule decode_ignores_flags_aux)
next
  assume a: "nbstat_decode_response b h rep = Some (rc, h', rep') \<and> buf_length b \<le> 576
        \<and> dec16be (buf_data b) 2 = Some flags"
  then have "decode_header (buf_data b) 0 (hdr rep) = Some (hdr rep', 12)"
    by (auto dest: decode_keeps_header)
  moreover from a have "dec16be (buf_data b) 2 = Some flags" by simp
  ultimately have "hdr_r (hdr rep') = ucast (drop_bit 15 flags AND 0x1)"
    by (auto dest: decode_header_flags)
  then show "hdr_r (hdr rep') = (if bit flags 15 then 1 else 0)"
    by (simp only: bit15_of_flags)
qed

theorem decode_accepts_clear_response_bit:
  "dec16be (buf_data buffer_query_flags) 2 = Some 0x0000
   \<and> \<not> bit (0x0000 :: u16) 15
   \<and> map_option (\<lambda>(rc, h, r). (rc, hdr_r (hdr r)))
        (nbstat_decode_response buffer_query_flags (fresh_heap 2) blank_response)
       = Some (NBSTAT_EOK, 0)"
  by code_simp

theorem decode_flags_taken_as_given_witness:
  "map_option fst
     (nbstat_decode_response (buffer_2\<lparr>buf_data := (buf_data buffer_2)[2 := 0x00, 3 := 0x00]\<rparr>)
        (fresh_heap 2) blank_response)
     = Some NBSTAT_EOK
   \<and> map_option fst (nbstat_decode_response buffer_2 (fresh_heap 2) blank_response)
     = Some NBSTAT_EOK
   \<and> buf_length buffer_2 \<le> 576
   \<and> dec16be (buf_data buffer_2) 2 = Some 0x8400
   \<and> map_option (\<lambda>(rc, h, r). hdr_r (hdr r))
        (nbstat_decode_response buffer_2 (fresh_heap 2) blank_response)
     = Some (if bit (0x8400 :: u16) 15 then 1 else 0)"
proof -
  have d: "map_option fst (nbstat_decode_response buffer_2 (fresh_heap 2) blank_response)
      = Some NBSTAT_EOK"
    by code_simp
  then obtain h' rep' where
    r: "nbstat_decode_response buffer_2 (fresh_heap 2) blank_response = Some (NBSTAT_EOK, h', rep')"
    by (cases "nbstat_decode_response buffer_2 (fresh_heap 2) blank_response") auto
  have l: "buf_length buffer_2 \<le> 576" by code_simp
  have f: "dec16be (buf_data buffer_2) 2 = Some 0x8400" by code_simp
  note t = decode_flags_taken_as_given
    [where b = buffer_2 and x = "0x00" and y = "0x00" and h = "fresh_heap 2"
       and rep = blank_response and rc = NBSTAT_EOK and h' = h' and rep' = rep'
       and flags = "0x8400"]
  from t r l f have "hdr_r (hdr rep') = (if bit (0x8400 :: u16) 15 then 1 else 0)"
    by blast
  with r have "map_option (\<lambda>(rc, h, r). hdr_r (hdr r))
        (nbstat_decode_response buffer_2 (fresh_heap 2) blank_response)
     = Some (if bit (0x8400 :: u16) 15 then 1 else 0)"
    by simp
  moreover from t d have "map_option fst
     (nbstat_decode_response (buffer_2\<lparr>buf_data := (buf_data buffer_2)[2 := 0x00, 3 := 0x00]\<rparr>)
        (fresh_heap 2) blank_response)
     = Some NBSTAT_EOK"
    by simp
  ultimately show ?thesis using d l f by blast
qed

text \<open>
  C4. A buffer whose declared length exceeds 576 bytes is rejected with
  \<open>NBSTAT_EPROTO\<close> before any field of its contents is read: the result is the same for
  every contents \<open>d\<close> of the storage, the empty one included, and neither the heap nor
  \<open>*rep\<close> is touched.
\<close>

theorem decode_oversize_rejected:
  "576 < buf_length b \<Longrightarrow>
   nbstat_decode_response (b\<lparr>buf_data := d\<rparr>) h rep = Some (NBSTAT_EPROTO, h, rep)"
  by (simp add: decode_oversize)

theorem decode_oversize_rejected_witness:
  "576 < buf_length \<lparr>buf_data = [], buf_size = 1024, buf_length = 577\<rparr>
   \<and> nbstat_decode_response \<lparr>buf_data = [], buf_size = 1024, buf_length = 577\<rparr>
         (fresh_heap 0) blank_response
       = Some (NBSTAT_EPROTO, fresh_heap 0, blank_response)"
  using decode_oversize_rejected
    [of "\<lparr>buf_data = [], buf_size = 1024, buf_length = 577\<rparr>" "[]" "fresh_heap 0" blank_response]
  by simp

text \<open>
  C5. A buffer that passes the size ceiling and whose resource-record type field (the
  16 bits at offset 46) is not 0x0021 is rejected with \<open>NBSTAT_EPROTO\<close>, whatever the
  rest of the buffer holds; the heap is not touched.
\<close>

theorem decode_wrong_type_rejected:
  "buf_length b \<le> 576 \<Longrightarrow> dec16be (buf_data b) 46 = Some t \<Longrightarrow> t \<noteq> 0x0021 \<Longrightarrow>
   \<exists>rep'. nbstat_decode_response b h rep = Some (NBSTAT_EPROTO, h, rep')"
  using decode_wrong_type [of b t h rep] by (simp add: RR_TYPE_NBSTAT_def)

theorem decode_wrong_type_rejected_witness:
  "buf_length (received (datagram 0x8400 0x0020 2 (two_names @ statistics_block))) \<le> 576
   \<and> dec16be (buf_data (received (datagram 0x8400 0x0020 2 (two_names @ statistics_block)))) 46
       = Some 0x0020
   \<and> (0x0020 :: u16) \<noteq> 0x0021
   \<and> (\<exists>rep'. nbstat_decode_response
                 (received (datagram 0x8400 0x0020 2 (two_names @ statistics_block)))
                 (fresh_heap 2) blank_response
               = Some (NBSTAT_EPROTO, fresh_heap 2, rep'))"
proof -
  let ?b = "received (datagram 0x8400 0x0020 2 (two_names @ statistics_block))"
  have l: "buf_length ?b \<le> 576" by code_simp
  have t: "dec16be (buf_data ?b) 46 = Some 0x0020" by code_simp
  have n: "(0x0020 :: u16) \<noteq> 0x0021" by simp
  from decode_wrong_type_rejected [OF l t n, of "fresh_heap 2" blank_response] l t n
  show ?thesis by blast
qed

text \<open>
  C6. When the buffer passes the checks and fewer allocations succeed than the count
  byte asks for, the decoder returns \<open>NBSTAT_ENOMEM\<close> and every block it has allocated is
  freed: the heap holds the cells it held before, followed by freed cells only. And
  when \<open>nbstat_query\<close> returns a code other than \<open>NBSTAT_EOK\<close>, the caller's pointer
  \<open>*nbstat\<close> is what it was before the call, or \<open>NULL\<close>.
\<close>

theorem decode_enomem_releases_entries:
  "(buf_length b \<le> 576 \<and> dec16be (buf_data b) 46 = Some 0x0021
      \<and> dec8be (buf_data b) 56 = Some n \<and> buf_length b = 12 + 44 + 1 + 18 * unat n + 46
      \<and> buf_length b \<le> length (buf_data b) \<and> avail h < unat n
    \<longrightarrow> (\<exists>h' rep'. nbstat_decode_response b h rep = Some (NBSTAT_ENOMEM, h', rep')
           \<and> cells h' = cells h @ replicate (avail h) None
           \<and> live_count h' = live_count h))
   \<and> (nbstat_query e h0 p t = Some (rc, h1, p') \<and> rc \<noteq> NBSTAT_EOK \<longrightarrow> p' = p \<or> p' = None)"
proof (intro conjI impI)
  assume a: "buf_length b \<le> 576 \<and> dec16be (buf_data b) 46 = Some 0x0021
      \<and> dec8be (buf_data b) 56 = Some n \<and> buf_length b = 12 + 44 + 1 + 18 * unat n + 46
      \<and> buf_length b \<le> length (buf_data b) \<and> avail h < unat n"
  then have "buf_length b \<le> 576" "dec16be (buf_data b) 46 = Some RR_TYPE_NBSTAT"
    "dec8be (buf_data b) 56 = Some n" "buf_length b = 57 + 18 * unat n + 46"
    "buf_length b \<le> length (buf_data b)" "avail h < unat n"
    by (simp_all add: RR_TYPE_NBSTAT_def)
  from decode_nomem [OF this, of rep] obtain h' rep' where
    r: "nbstat_decode_response b h rep = Some (NBSTAT_ENOMEM, h', rep')"
      "cells h' = cells h @ replicate (avail h) None"
    by blast
  from r(2) have "live_count h' = live_count h"
    by (simp add: live_count_def)
  with r show "\<exists>h' rep'. nbstat_decode_response b h rep = Some (NBSTAT_ENOMEM, h', rep')
           \<and> cells h' = cells h @ replicate (avail h) None
           \<and> live_count h' = live_count h"
    by blast
next
  assume "nbstat_query e h0 p t = Some (rc, h1, p') \<and> rc \<noteq> NBSTAT_EOK"
  then show "p' = p \<or> p' = None"
    using query_failure_no_result [of e h0 p t rc h1 p'] by blast
qed

theorem decode_enomem_releases_entries_witness:
  "(\<exists>h' rep'. nbstat_decode_response buffer_2 (fresh_heap 1) blank_response
                 = Some (NBSTAT_ENOMEM, h', rep')
       \<and> cells h' = cells (fresh_heap 1) @ replicate (avail (fresh_heap 1)) None
       \<and> live_count h' = live_count (fresh_heap 1))
   \<and> avail (fresh_heap 1) < unat (2 :: u8)
   \<and> nbstat_query (answering_env (take 139 (buf_data buffer_2))) (fresh_heap 1) None 3000
       = Some (NBSTAT_ENOMEM, \<lparr>cells = [None], avail = 0, junk = blank_node\<rparr>, None)
   \<and> NBSTAT_ENOMEM \<noteq> NBSTAT_EOK"
proof -
  have h1: "buf_length buffer_2 \<le> 576 \<and> dec16be (buf_data buffer_2) 46 = Some 0x0021
      \<and> dec8be (buf_data buffer_2) 56 = Some 2
      \<and> buf_length buffer_2 = 12 + 44 + 1 + 18 * unat (2 :: u8) + 46
      \<and> buf_length buffer_2 \<le> length (buf_data buffer_2)
      \<and> avail (fresh_heap 1) < unat (2 :: u8)"
    by code_simp
  have q2: "nbstat_query (answering_env (take 139 (buf_data buffer_2))) (fresh_heap 1) None 3000
       = Some (NBSTAT_ENOMEM, \<lparr>cells = [None], avail = 0, junk = blank_node\<rparr>, None)"
    by code_simp
  have ne: "NBSTAT_ENOMEM \<noteq> NBSTAT_EOK" by (simp add: nbstat_codes)
  note t = decode_enomem_releases_entries
    [where b = buffer_2 and n = 2 and h = "fresh_heap 1" and rep = blank_response
       and e = "answering_env (take 139 (buf_data buffer_2))" and ?h0.0 = "fresh_heap 1"
       and p = None and t = 3000 and rc = NBSTAT_ENOMEM
       and ?h1.0 = "\<lparr>cells = [None], avail = 0, junk = blank_node\<rparr>" and p' = None]
  from t h1 have "\<exists>h' rep'. nbstat_decode_response buffer_2 (fresh_heap 1) blank_response
                 = Some (NBSTAT_ENOMEM, h', rep')
       \<and> cells h' = cells (fresh_heap 1) @ replicate (avail (fresh_heap 1)) None
       \<and> live_count h' = live_count (fresh_heap 1)"
    by blast
  with h1 q2 ne show ?thesis by blast
qed

text \<open>
  C7. For non-null pointers, a buffer whose storage holds 50 bytes and a query whose
  name array has its 34 bytes, \<open>nbstat_encode_request\<close> returns \<open>NBSTAT_EOK\<close>, sets the
  length to 50 and writes 50 bytes: the six 16-bit words of the header (12 bytes), then
  the 34 name bytes, the type and the class, with nothing between them; the storage
  after them is unchanged. It returns \<open>NBSTAT_EINVAL\<close> exactly when a pointer is null.
\<close>

theorem encode_request_50_bytes:
  "(50 \<le> length (buf_data b) \<and> length (q_name (question q)) = 34
    \<longrightarrow> nbstat_encode_request (Some b) (Some q) =
          Some (NBSTAT_EOK,
            Some (b\<lparr>buf_data :=
                      be16 (name_trn_id (query_hdr q)) @ be16 (encode_flags (query_hdr q))
                      @ be16 (qdcount (query_hdr q)) @ be16 (ancount (query_hdr q))
                      @ be16 (nscount (query_hdr q)) @ be16 (arcount (query_hdr q))
                      @ q_name (question q)
                      @ be16 (q_type (question q)) @ be16 (q_class (question q))
                      @ drop 50 (buf_data b),
                    buf_length := 50\<rparr>))
        \<and> length (be16 (name_trn_id (query_hdr q)) @ be16 (encode_flags (query_hdr q))
                  @ be16 (qdcount (query_hdr q)) @ be16 (ancount (query_hdr q))
                  @ be16 (nscount (query_hdr q)) @ be16 (arcount (query_hdr q))) = 12
        \<and> length (be16 (name_trn_id (query_hdr q)) @ be16 (encode_flags (query_hdr q))
                  @ be16 (qdcount (query_hdr q)) @ be16 (ancount (query_hdr q))
                  @ be16 (nscount (query_hdr q)) @ be16 (arcount (query_hdr q))
                  @ q_name (question q)
                  @ be16 (q_type (question q)) @ be16 (q_class (question q))) = 50)
   \<and> ((\<exists>r. nbstat_encode_request bp qp = Some (NBSTAT_EINVAL, r)) \<longleftrightarrow> bp = None \<or> qp = None)"
proof (intro conjI impI)
  assume a: "50 \<le> length (buf_data b) \<and> length (q_name (question q)) = 34"
  then show "nbstat_encode_request (Some b) (Some q) =
          Some (NBSTAT_EOK,
            Some (b\<lparr>buf_data :=
                      be16 (name_trn_id (query_hdr q)) @ be16 (encode_flags (query_hdr q))
                      @ be16 (qdcount (query_hdr q)) @ be16 (ancount (query_hdr q))
                      @ be16 (nscount (query_hdr q)) @ be16 (arcount (query_hdr q))
                      @ q_name (question q)
                      @ be16 (q_type (question q)) @ be16 (q_class (question q))
                      @ drop 50 (buf_data b),
                    buf_length := 50\<rparr>))"
    using encode_bytes [of b q] by simp
  show "length (be16 (name_trn_id (query_hdr q)) @ be16 (encode_flags (query_hdr q))
                  @ be16 (qdcount (query_hdr q)) @ be16 (ancount (query_hdr q))
                  @ be16 (nscount (query_hdr q)) @ be16 (arcount (query_hdr q))) = 12"
    by (simp add: be16_def)
  from a show "length (be16 (name_trn_id (query_hdr q)) @ be16 (encode_flags (query_hdr q))
                  @ be16 (qdcount (query_hdr q)) @ be16 (ancount (query_hdr q))
                  @ be16 (nscount (query_hdr q)) @ be16 (arcount (query_hdr q))
                  @ q_name (question q)
                  @ be16 (q_type (question q)) @ be16 (q_class (question q))) = 50"
    by (simp add: be16_def)
next
  show "(\<exists>r. nbstat_encode_request bp qp = Some (NBSTAT_EINVAL, r)) \<longleftrightarrow> bp = None \<or> qp = None"
    by (rule encode_einval)
qed

theorem encode_request_50_bytes_witness:
  "50 \<le> length (buf_data (received [])) \<and> length (q_name (question wildcard_query)) = 34
   \<and> map_option (\<lambda>(rc, bp). (rc, map_option buf_length bp, map_option (take 52 \<circ> buf_data) bp))
        (nbstat_encode_request (Some (received [])) (Some wildcard_query))
     = Some (NBSTAT_EOK, Some 50,
         Some ([0x12, 0x34, 0x00, 0x00, 0x00, 0x01, 0x00, 0x00, 0x00, 0x00, 0x00, 0x00,
                0x20, 0x43, 0x4B] @ replicate 30 0x41 @ [0x00, 0x00, 0x21, 0x00, 0x01, 0x00, 0x00]))
   \<and> nbstat_encode_request None (Some wildcard_query) = Some (NBSTAT_EINVAL, None)"
proof -
  have h: "50 \<le> length (buf_data (received [])) \<and> length (q_name (question wildcard_query)) = 34"
    by code_simp
  note t = encode_request_50_bytes
    [where b = "received []" and q = wildcard_query and bp = None and qp = "Some wildcard_query"]
  from t h have e: "nbstat_encode_request (Some (received [])) (Some wildcard_query) =
          Some (NBSTAT_EOK,
            Some ((received [])\<lparr>buf_data :=
                      be16 (name_trn_id (query_hdr wildcard_query))
                      @ be16 (encode_flags (query_hdr wildcard_query))
                      @ be16 (qdcount (query_hdr wildcard_query))
                      @ be16 (ancount (query_hdr wildcard_query))
                      @ be16 (nscount (query_hdr wildcard_query))
                      @ be16 (arcount (query_hdr wildcard_query))
                      @ q_name (question wildcard_query)
                      @ be16 (q_type (question wildcard_query))
                      @ be16 (q_class (question wildcard_query))
                      @ drop 50 (buf_data (received [])),
                    buf_length := 50\<rparr>))"
    by blast
  have v: "take 52 (be16 (name_trn_id (query_hdr wildcard_query))
                      @ be16 (encode_flags (query_hdr wildcard_query))
                      @ be16 (qdcount (query_hdr wildcard_query))
                      @ be16 (ancount (query_hdr wildcard_query))
                      @ be16 (nscount (query_hdr wildcard_query))
                      @ be16 (arcount (query_hdr wildcard_query))
                      @ q_name (question wildcard_query)
                      @ be16 (q_type (question wildcard_query))
                      @ be16 (q_class (question wildcard_query))
                      @ drop 50 (buf_data (received [])))
      = [0x12, 0x34, 0x00, 0x00, 0x00, 0x01, 0x00, 0x00, 0x00, 0x00, 0x00, 0x00,
                0x20, 0x43, 0x4B] @ replicate 30 0x41 @ [0x00, 0x00, 0x21, 0x00, 0x01, 0x00, 0x00]"
    by code_simp
  from t have "(\<exists>r. nbstat_encode_request None (Some wildcard_query) = Some (NBSTAT_EINVAL, r))"
    by blast
  then have n: "nbstat_encode_request None (Some wildcard_query) = Some (NBSTAT_EINVAL, None)"
    by (simp add: nbstat_encode_request_def)
  from e v have "map_option (\<lambda>(rc, bp). (rc, map_option buf_length bp, map_option (take 52 \<circ> buf_data) bp))
        (nbstat_encode_request (Some (received [])) (Some wildcard_query))
     = Some (NBSTAT_EOK, Some 50,
         Some ([0x12, 0x34, 0x00, 0x00, 0x00, 0x01, 0x00, 0x00, 0x00, 0x00, 0x00, 0x00,
                0x20, 0x43, 0x4B] @ replicate 30 0x41 @ [0x00, 0x00, 0x21, 0x00, 0x01, 0x00, 0x00]))"
    by simp
  with h n show ?thesis by blast
qed

text \<open>
  C8. \<open>nbstat_query\<close> normalises the caller's timeout before the wait: its result for
  \<open>t\<close> is its result for \<open>normalize_timeout t\<close>, and the only delay it hands to \<open>select\<close>
  is \<open>normalize_timeout t\<close> (answering every other delay as that one changes nothing).
  That value always lies in (0, 10000] ms: a timeout outside the range is replaced by
  the 3000 ms default, one inside it is used unchanged. In particular 0, -1 and 50000
  become 3000, and 2000 stays 2000.
\<close>

theorem normalize_timeout_range:
  "nbstat_query e h p t = nbstat_query e h p (normalize_timeout t)
   \<and> nbstat_query (e\<lparr>select_result := f\<rparr>) h p t
       = nbstat_query (e\<lparr>select_result := (\<lambda>delay. f (normalize_timeout t))\<rparr>) h p t
   \<and> 0 < normalize_timeout t \<and> normalize_timeout t \<le> 10000
   \<and> (0 < t \<and> t \<le> 10000 \<longrightarrow> normalize_timeout t = t)
   \<and> (\<not> (0 < t \<and> t \<le> 10000) \<longrightarrow> normalize_timeout t = 3000)
   \<and> normalize_timeout 0 = 3000
   \<and> normalize_timeout (- 1) = 3000
   \<and> normalize_timeout 50000 = 3000
   \<and> normalize_timeout 2000 = 2000"
  using query_normalizes_timeout [of e h p t] query_waits_normalized [where e = e and f = f and h = h and p = p and t = t]
  by (simp add: normalize_timeout_def)

theorem normalize_timeout_range_witness:
  "map_option fst (nbstat_query (punctual_env 3000) (fresh_heap 3) None 50000)
     = Some NBSTAT_ETIMEOUT
   \<and> map_option fst (nbstat_query (punctual_env 3000) (fresh_heap 3) None 0)
     = Some NBSTAT_ETIMEOUT
   \<and> map_option fst (nbstat_query (punctual_env 3000) (fresh_heap 3) None (- 1))
     = Some NBSTAT_ETIMEOUT
   \<and> map_option fst (nbstat_query (punctual_env 3000) (fresh_heap 3) None 2000)
     = Some NBSTAT_EOK
   \<and> map_option fst (nbstat_query (punctual_env 2000) (fresh_heap 3) None 2000)
     = Some NBSTAT_ETIMEOUT
   \<and> (0::int) < 2000 \<and> (2000::int) \<le> 10000 \<and> normalize_timeout 2000 = 2000
   \<and> \<not> (0 < (50000::int) \<and> (50000::int) \<le> 10000) \<and> normalize_timeout 50000 = 3000"
proof -
  have a: "map_option fst (nbstat_query (punctual_env 3000) (fresh_heap 3) None 3000)
      = Some NBSTAT_ETIMEOUT"
    by code_simp
  have b: "map_option fst (nbstat_query (punctual_env 3000) (fresh_heap 3) None 2000)
      = Some NBSTAT_EOK"
    by code_simp
  have c: "map_option fst (nbstat_query (punctual_env 2000) (fresh_heap 3) None 2000)
      = Some NBSTAT_ETIMEOUT"
    by code_simp
  note t = normalize_timeout_range [where e = "punctual_env 3000" and h = "fresh_heap 3"
      and p = None and f = "select_result (punctual_env 3000)"]
  from t [of 50000] a
  have r1: "map_option fst (nbstat_query (punctual_env 3000) (fresh_heap 3) None 50000)
      = Some NBSTAT_ETIMEOUT"
    by simp
  from t [of 0] a
  have r2: "map_option fst (nbstat_query (punctual_env 3000) (fresh_heap 3) None 0)
      = Some NBSTAT_ETIMEOUT"
    by simp
  from t [of "- 1"] a
  have r3: "map_option fst (nbstat_query (punctual_env 3000) (fresh_heap 3) None (- 1))
      = Some NBSTAT_ETIMEOUT"
    by simp
  from t [of 2000] have r4: "normalize_timeout 2000 = 2000 \<and> normalize_timeout 50000 = 3000"
    by simp
  from r1 r2 r3 r4 b c show ?thesis by simp
qed

text \<open>
  C9. The decoder never returns \<open>NBSTAT_EDEBUG\<close>. The header moves the cursor by 12
  bytes, a loop of \<open>k\<close> entries that runs to its end by \<open>18 * k\<close>, the statistics block by
  46: once the length cross-check has passed, the cursor after the statistics is the
  buffer length, and the final comparison cannot fail.
\<close>

theorem decode_never_edebug:
  "map_option fst (nbstat_decode_response b h rep) \<noteq> Some NBSTAT_EDEBUG
   \<and> (decode_header mem p0 h0 = Some (h1, p1) \<longrightarrow> p1 = p0 + 12)
   \<and> (entry_loop mem k s = Some (None, s') \<longrightarrow> es_ptr s' = es_ptr s + 18 * k)
   \<and> (decode_stat mem p2 st = Some (st', p3) \<longrightarrow> p3 = p2 + 46)"
proof -
  have "rc \<noteq> NBSTAT_EDEBUG" if "nbstat_decode_response b h rep = Some (rc, h', rep')" for rc h' rep'
    using that
    by (auto simp: nbstat_decode_response_def Let_def nbstat_codes
        dest!: decode_header_ptr entry_loop_ret decode_stat_ptr
        split: if_splits Option.bind_splits prod.splits option.splits)
  then have "map_option fst (nbstat_decode_response b h rep) \<noteq> Some NBSTAT_EDEBUG"
    by (cases "nbstat_decode_response b h rep") auto
  then show ?thesis
    using decode_header_ptr [of mem p0 h0 h1 p1] entry_loop_ret [of mem k s None s']
      decode_stat_ptr [of mem p2 st st' p3]
    by simp
qed

theorem decode_never_edebug_witness:
  "map_option fst (nbstat_decode_response buffer_2 (fresh_heap 2) blank_response) = Some NBSTAT_EOK
   \<and> map_option snd (decode_header (buf_data buffer_2) 0 (hdr blank_response)) = Some 12
   \<and> map_option (\<lambda>r. (fst r, es_ptr (snd r)))
        (entry_loop (buf_data buffer_2) 2
           \<lparr>es_heap = fresh_heap 2, es_node = None, es_tmp = None, es_ptr = 57\<rparr>)
       = Some (None, 93)
   \<and> map_option snd (decode_stat (buf_data buffer_2) 93 (stat blank_response)) = Some 139
   \<and> buf_length buffer_2 = 139"
proof -
  let ?mem = "buf_data buffer_2"
  let ?s0 = "\<lparr>es_heap = fresh_heap 2, es_node = None, es_tmp = None, es_ptr = 57\<rparr>"
  have d: "map_option fst (nbstat_decode_response buffer_2 (fresh_heap 2) blank_response)
      = Some NBSTAT_EOK"
    by code_simp
  have "map_option snd (decode_header ?mem 0 (hdr blank_response)) \<noteq> None" by code_simp
  then obtain h1 p1 where hd: "decode_header ?mem 0 (hdr blank_response) = Some (h1, p1)"
    by (cases "decode_header ?mem 0 (hdr blank_response)") auto
  have "map_option fst (entry_loop ?mem 2 ?s0) = Some None" by code_simp
  then obtain s' where el: "entry_loop ?mem 2 ?s0 = Some (None, s')"
    by (cases "entry_loop ?mem 2 ?s0") auto
  have "map_option snd (decode_stat ?mem 93 (stat blank_response)) \<noteq> None" by code_simp
  then obtain st' p3 where st: "decode_stat ?mem 93 (stat blank_response) = Some (st', p3)"
    by (cases "decode_stat ?mem 93 (stat blank_response)") auto
  have l: "buf_length buffer_2 = 139" by code_simp
  from decode_never_edebug
    [of buffer_2 "fresh_heap 2" blank_response ?mem 0 "hdr blank_response" h1 p1
        2 ?s0 s' 93 "stat blank_response" st' p3]
  show ?thesis
    using d hd el st l by simp
qed

text \<open>
  C10. The error-string table has no row for the protocol-violation code
  \<open>NBSTAT_EPROTO\<close> (0x105), so \<open>nbstat_error\<close> answers it with the fallback
  "Unknown error"; every other defined code has a row and gets that row's string.
\<close>

theorem nbstat_error_eproto_unknown:
  "NBSTAT_EPROTO \<notin> set (map fst error_list)
   \<and> nbstat_error NBSTAT_EPROTO = ''Unknown error''
   \<and> nbstat_error NBSTAT_EOK = ''operation completed successfully''
   \<and> nbstat_error NBSTAT_ENOMEM = ''memory allocation failure''
   \<and> nbstat_error NBSTAT_EINVAL = ''an invalid argument was passed to a library function''
   \<and> nbstat_error NBSTAT_EWSAFAIL = ''could not initialize the sockets layer''
   \<and> nbstat_error NBSTAT_ESOCKET = ''the system could not allocate a socket descriptor''
   \<and> nbstat_error NBSTAT_ETRFLAG = ''truncation flag was set in response''
   \<and> nbstat_error NBSTAT_ETIMEOUT = ''request expired''
   \<and> nbstat_error NBSTAT_EDEBUG = ''debugging error''"
  by (simp add: nbstat_error_def error_list_def nbstat_codes)

end
